theory Spec2Isabelle
  imports Complex_Main "HOL-Library.Sublist"
begin

section \<open>Python values\<close>

text \<open>
  A Python \<open>str\<close> is a sequence of Unicode code points, so it is modelled as a list of
  numbers: the literal \<open>'A'\<close> is \<open>[65]\<close>. The regular expressions and the substring tests of
  the program work on code points, not on bytes. Python floats are modelled as exact
  rationals: sums, quotients and comparisons are exact, and binary rounding error is
  outside the model. Points in time (\<open>datetime\<close>, \<open>time.time()\<close>, file modification
  times, pandas timestamps) are whole seconds on one clock.
\<close>

type_synonym pystr = "nat list"

type_synonym timestamp = int

datatype exn = ValueError | IndexError | KeyError | TypeError | Upstream pystr

text \<open>The reply of a provider function: it raises, returns \<open>None\<close>, or returns data.\<close>

datatype 'a reply = Raises pystr | ReturnsNone | Returns 'a

text \<open>
  A \<open>DataFrame\<close>: its column labels and its rows in provider order. \<open>df.empty\<close> holds
  when either axis has length 0.
\<close>

record 'r frame =
  columns :: "pystr list"
  rows :: "'r list"

definition frame_empty :: "'r frame \<Rightarrow> bool" where
  "frame_empty df = (rows df = [] \<or> columns df = [])"

text \<open>
  The decimal digits of Unicode (category Nd): the characters \<open>\d\<close> matches in a
  \<open>str\<close> pattern and \<open>float\<close> reads as digits. They come in runs of ten, each
  run in the order 0 to 9; the table lists the first code point of every run (Unicode
  14.0.0, the character database of Python 3.11).
\<close>

definition decimal_starts :: "nat list" where
  "decimal_starts =
     [0x30, 0x660, 0x6F0, 0x7C0, 0x966, 0x9E6, 0xA66, 0xAE6, 0xB66, 0xBE6, 0xC66, 0xCE6,
      0xD66, 0xDE6, 0xE50, 0xED0, 0xF20, 0x1040, 0x1090, 0x17E0, 0x1810, 0x1946, 0x19D0,
      0x1A80, 0x1A90, 0x1B50, 0x1BB0, 0x1C40, 0x1C50, 0xA620, 0xA8D0, 0xA900, 0xA9D0,
      0xA9F0, 0xAA50, 0xABF0, 0xFF10, 0x104A0, 0x10D30, 0x11066, 0x110F0, 0x11136, 0x111D0,
      0x112F0, 0x11450, 0x114D0, 0x11650, 0x116C0, 0x11730, 0x118E0, 0x11950, 0x11C50,
      0x11D50, 0x11DA0, 0x16A60, 0x16AC0, 0x16B50, 0x1D7CE, 0x1D7D8, 0x1D7E2, 0x1D7EC,
      0x1D7F6, 0x1E140, 0x1E2F0, 0x1E950, 0x1FBF0]"

definition decimal_value :: "nat \<Rightarrow> nat option" where
  "decimal_value c = map_option (\<lambda>s. c - s) (find (\<lambda>s. s \<le> c \<and> c < s + 10) decimal_starts)"

definition is_decimal :: "nat \<Rightarrow> bool" where
  "is_decimal c = (decimal_value c \<noteq> None)"

text \<open>
  The characters for which \<open>str.isdigit\<close> holds: the decimal digits and the other
  characters of numeric type Digit (superscripts, circled digits and the like), as
  inclusive ranges of code points (Unicode 14.0.0).
\<close>

definition digit_ranges :: "(nat \<times> nat) list" where
  "digit_ranges =
     [(0x30, 0x39), (0xB2, 0xB3), (0xB9, 0xB9), (0x660, 0x669), (0x6F0, 0x6F9),
      (0x7C0, 0x7C9), (0x966, 0x96F), (0x9E6, 0x9EF), (0xA66, 0xA6F), (0xAE6, 0xAEF),
      (0xB66, 0xB6F), (0xBE6, 0xBEF), (0xC66, 0xC6F), (0xCE6, 0xCEF), (0xD66, 0xD6F),
      (0xDE6, 0xDEF), (0xE50, 0xE59), (0xED0, 0xED9), (0xF20, 0xF29), (0x1040, 0x1049),
      (0x1090, 0x1099), (0x1369, 0x1371), (0x17E0, 0x17E9), (0x1810, 0x1819),
      (0x1946, 0x194F), (0x19D0, 0x19DA), (0x1A80, 0x1A89), (0x1A90, 0x1A99),
      (0x1B50, 0x1B59), (0x1BB0, 0x1BB9), (0x1C40, 0x1C49), (0x1C50, 0x1C59),
      (0x2070, 0x2070), (0x2074, 0x2079), (0x2080, 0x2089), (0x2460, 0x2468),
      (0x2474, 0x247C), (0x2488, 0x2490), (0x24EA, 0x24EA), (0x24F5, 0x24FD),
      (0x24FF, 0x24FF), (0x2776, 0x277E), (0x2780, 0x2788), (0x278A, 0x2792),
      (0xA620, 0xA629), (0xA8D0, 0xA8D9), (0xA900, 0xA909), (0xA9D0, 0xA9D9),
      (0xA9F0, 0xA9F9), (0xAA50, 0xAA59), (0xABF0, 0xABF9), (0xFF10, 0xFF19),
      (0x104A0, 0x104A9), (0x10A40, 0x10A43), (0x10D30, 0x10D39), (0x10E60, 0x10E68),
      (0x11052, 0x1105A), (0x11066, 0x1106F), (0x110F0, 0x110F9), (0x11136, 0x1113F),
      (0x111D0, 0x111D9), (0x112F0, 0x112F9), (0x11450, 0x11459), (0x114D0, 0x114D9),
      (0x11650, 0x11659), (0x116C0, 0x116C9), (0x11730, 0x11739), (0x118E0, 0x118E9),
      (0x11950, 0x11959), (0x11C50, 0x11C59), (0x11D50, 0x11D59), (0x11DA0, 0x11DA9),
      (0x16A60, 0x16A69), (0x16AC0, 0x16AC9), (0x16B50, 0x16B59), (0x1D7CE, 0x1D7FF),
      (0x1E140, 0x1E149), (0x1E2F0, 0x1E2F9), (0x1E950, 0x1E959), (0x1F100, 0x1F10A),
      (0x1FBF0, 0x1FBF9)]"

definition is_digit_char :: "nat \<Rightarrow> bool" where
  "is_digit_char c = list_ex (\<lambda>(lo, hi). lo \<le> c \<and> c \<le> hi) digit_ranges"

definition isdigit :: "pystr \<Rightarrow> bool" where
  "isdigit s = (s \<noteq> [] \<and> list_all is_digit_char s)"

text \<open>The characters \<open>str.strip()\<close> removes: those for which \<open>str.isspace\<close> holds.\<close>

definition is_space :: "nat \<Rightarrow> bool" where
  "is_space c =
     ((9 \<le> c \<and> c \<le> 13) \<or> (28 \<le> c \<and> c \<le> 32) \<or> c = 0x85 \<or> c = 0xA0 \<or> c = 0x1680
      \<or> (0x2000 \<le> c \<and> c \<le> 0x200A) \<or> c = 0x2028 \<or> c = 0x2029 \<or> c = 0x202F
      \<or> c = 0x205F \<or> c = 0x3000)"

definition strip :: "pystr \<Rightarrow> pystr" where
  "strip s = rev (dropWhile is_space (rev (dropWhile is_space s)))"

text \<open>\<open>str.zfill(width)\<close>: zeros go after a leading sign.\<close>

definition zfill :: "nat \<Rightarrow> pystr \<Rightarrow> pystr" where
  "zfill width s =
     (case s of
        [] \<Rightarrow> replicate width 48
      | c # cs \<Rightarrow>
          if c = 43 \<or> c = 45 then c # replicate (width - length s) 48 @ cs
          else replicate (width - length s) 48 @ s)"

text \<open>\<open>round(x, 6)\<close>: to the nearest multiple of \<open>10\<^sup>-\<^sup>6\<close>, a tie going to the even one.\<close>

definition round_half_even :: "rat \<Rightarrow> int" where
  "round_half_even x =
     (let f = \<lfloor>x\<rfloor>; d = x - of_int f in
      if d < 1 / 2 then f
      else if 1 / 2 < d then f + 1
      else if even f then f else f + 1)"

definition round6 :: "rat \<Rightarrow> rat" where
  "round6 x = of_int (round_half_even (x * 1000000)) / 1000000"

text \<open>\<open>timedelta(days=n)\<close> in seconds.\<close>

definition days :: "int \<Rightarrow> int" where
  "days n = n * 86400"

text \<open>The last \<open>n\<close> elements: \<open>Series.tail(n)\<close>.\<close>

definition tail :: "nat \<Rightarrow> 'a list \<Rightarrow> 'a list" where
  "tail n xs = drop (length xs - n) xs"

text \<open>\<open>Series.dropna()\<close> on a column of optional values.\<close>

definition dropna :: "'a option list \<Rightarrow> 'a list" where
  "dropna xs = List.map_filter (\<lambda>x. x) xs"


section \<open>Rows of the provider's tables\<close>

text \<open>
  The program reads the provider's tables by column position. Each row type below holds
  the columns one function reads, each as the pandas coercion the function applies to it
  returns it: \<open>None\<close> is \<open>NaN\<close> for a number and \<open>NaT\<close> for a date.
\<close>

text \<open>
  \<open>stock_dividend_cninfo\<close>: column 0 (announcement date) under
  \<open>pd.to_datetime(errors='coerce')\<close>, column 4 (cash per 10 shares) under
  \<open>pd.to_numeric(errors='coerce')\<close>, column 7 (payment date) under
  \<open>pd.to_datetime(errors='coerce')\<close>; column 7 is read only when the table has more
  than 7 columns.
\<close>

record a_row =
  announce :: "timestamp option"
  per10 :: "rat option"
  pay_date :: "timestamp option"

text \<open>
  \<open>stock_hk_dividend_payout_em\<close>: column 0 (announcement date) and column 4
  (ex-dividend date) under \<open>pd.to_datetime(errors='coerce')\<close>, column 2 (the
  distribution text) under \<open>str\<close>.
\<close>

record hk_row =
  hk_announce :: "timestamp option"
  method_text :: pystr
  exdiv :: "timestamp option"

text \<open>A row of a spot snapshot: its columns \<open>code_col\<close> and \<open>name_col\<close>, the code under \<open>str\<close>.\<close>

record entry =
  code :: pystr
  short_name :: pystr

definition code_col :: pystr where
  "code_col = [0x4EE3, 0x7801]"

definition name_col :: pystr where
  "name_col = [0x540D, 0x79F0]"

text \<open>
  A row of \<open>fx_spot_quote\<close>: whether the row's values, joined by spaces, contain
  \<open>HKD\<close> or one of the two Chinese names of the currency, and what \<open>float(v)\<close> gives for
  each value in order (\<open>None\<close> when it raises or gives \<open>nan\<close>).
\<close>

record spot_row =
  mentions_hkd :: bool
  cell_floats :: "rat option list"

text \<open>
  A column of \<open>currency_boc_sina\<close>: whether its header contains the mid-rate or the
  benchmark-rate keyword, and the last row's value under
  \<open>pd.to_numeric(errors='coerce')\<close>. An empty table is the empty list of columns.
\<close>

record boc_column =
  names_mid_or_benchmark :: bool
  latest :: "rat option"

text \<open>
  A cell of the \<open>value\<close> column of \<open>stock_individual_info_em\<close>: what
  \<open>pd.to_numeric(errors='coerce')\<close> and \<open>str\<close> make of it.
\<close>

type_synonym info_cell = "rat option \<times> pystr"


section \<open>The world outside the program\<close>

text \<open>
  One request sees one clock value and one reply per provider call. \<open>strftime_ymd\<close> is
  \<open>Timestamp.strftime('%Y-%m-%d')\<close>, \<open>None\<close> when it raises. The single-column
  replies hold the column the program reads: the names (column 1) of the security profile,
  the \<open>close\<close> column of the daily history, column 2 of the ranged history.
\<close>

record world =
  now :: timestamp
  strftime_ymd :: "timestamp \<Rightarrow> pystr option"
  fx_spot_quote :: "spot_row list reply"
  currency_boc_sina :: "boc_column list reply"
  stock_zh_a_spot_em :: "entry frame reply"
  stock_individual_info_em :: "pystr \<Rightarrow> info_cell list reply"
  stock_hk_security_profile_em :: "pystr \<Rightarrow> pystr list reply"
  stock_hk_daily :: "pystr \<Rightarrow> rat list reply"
  stock_hk_hist :: "pystr \<Rightarrow> rat list reply"
  stock_hk_spot_em :: "entry frame reply"
  stock_hk_main_board_spot_em :: "entry frame reply"
  stock_dividend_cninfo :: "pystr \<Rightarrow> a_row frame reply"
  stock_hk_dividend_payout_em :: "pystr \<Rightarrow> hk_row frame reply"


section \<open>Exchange rate (\<open>get_hkd_cny_rate\<close>)\<close>

fun first_plausible :: "rat option list \<Rightarrow> rat option" where
  "first_plausible [] = None"
| "first_plausible (v # vs) =
     (case v of
        Some r \<Rightarrow> if 1 / 2 \<le> r \<and> r \<le> 3 / 2 then Some (round6 r) else first_plausible vs
      | None \<Rightarrow> first_plausible vs)"

fun scan_spot :: "spot_row list \<Rightarrow> rat option" where
  "scan_spot [] = None"
| "scan_spot (row # rest) =
     (if mentions_hkd row
      then (case first_plausible (cell_floats row) of
              Some r \<Rightarrow> Some r
            | None \<Rightarrow> scan_spot rest)
      else scan_spot rest)"

fun scan_boc :: "boc_column list \<Rightarrow> rat option" where
  "scan_boc [] = None"
| "scan_boc (col # rest) =
     (if names_mid_or_benchmark col
      then (case latest col of
              Some val \<Rightarrow> if 10 < val then Some (round6 (val / 100)) else scan_boc rest
            | None \<Rightarrow> scan_boc rest)
      else scan_boc rest)"

definition default_rate :: rat where
  "default_rate = 924 / 1000"

definition get_hkd_cny_rate :: "world \<Rightarrow> rat" where
  "get_hkd_cny_rate w =
     (case (case fx_spot_quote w of Returns df \<Rightarrow> scan_spot df | _ \<Rightarrow> None) of
        Some r \<Rightarrow> r
      | None \<Rightarrow>
          (case (case currency_boc_sina w of Returns df \<Rightarrow> scan_boc df | _ \<Rightarrow> None) of
             Some r \<Rightarrow> r
           | None \<Rightarrow> default_rate))"


section \<open>Symbol caches (\<open>_load_a_cache\<close>, \<open>_load_hk_cache\<close>)\<close>

text \<open>
  A cache artifact is a file: its modification time and the entries stored in it. The two
  artifacts make up the disk state, \<open>None\<close> being a file that does not exist. Each loader
  returns its result, the artifact afterwards, and the provider functions it called, in
  call order.
\<close>

record cache_file =
  mtime :: timestamp
  payload :: "entry list"

record disk =
  cache_a :: "cache_file option"
  cache_hk :: "cache_file option"

datatype endpoint = Stock_zh_a_spot_em | Stock_hk_spot_em | Stock_hk_main_board_spot_em

definition CACHE_TTL :: int where
  "CACHE_TTL = 24 * 3600"

definition refetch_a ::
  "world \<Rightarrow> cache_file option \<Rightarrow> (exn + entry list) \<times> cache_file option \<times> endpoint list" where
  "refetch_a w file =
     (case stock_zh_a_spot_em w of
        Raises e \<Rightarrow> (Inl (Upstream e), file, [Stock_zh_a_spot_em])
      | ReturnsNone \<Rightarrow> (Inl TypeError, file, [Stock_zh_a_spot_em])
      | Returns df \<Rightarrow>
          if code_col \<in> set (columns df) \<and> name_col \<in> set (columns df)
          then (Inr (rows df), Some \<lparr>mtime = now w, payload = rows df\<rparr>, [Stock_zh_a_spot_em])
          else (Inl KeyError, file, [Stock_zh_a_spot_em]))"

definition load_a_cache ::
  "world \<Rightarrow> cache_file option \<Rightarrow> (exn + entry list) \<times> cache_file option \<times> endpoint list" where
  "load_a_cache w file =
     (case file of
        Some f \<Rightarrow>
          if now w - mtime f < CACHE_TTL then (Inr (payload f), file, [])
          else refetch_a w file
      | None \<Rightarrow> refetch_a w file)"

definition call_spot :: "world \<Rightarrow> endpoint \<Rightarrow> entry frame reply" where
  "call_spot w fn =
     (case fn of
        Stock_zh_a_spot_em \<Rightarrow> stock_zh_a_spot_em w
      | Stock_hk_spot_em \<Rightarrow> stock_hk_spot_em w
      | Stock_hk_main_board_spot_em \<Rightarrow> stock_hk_main_board_spot_em w)"

text \<open>
  One round of the loop over the two function names: the snapshot is taken when it is a
  non-empty table with both columns; a raised call, \<open>None\<close>, an empty table, a table
  without the code column, and the \<open>KeyError\<close> of a table without the name column all
  go on to the next name.
\<close>

definition usable_snapshot :: "entry frame reply \<Rightarrow> entry list option" where
  "usable_snapshot r =
     (case r of
        Returns df \<Rightarrow>
          if \<not> frame_empty df \<and> code_col \<in> set (columns df) \<and> name_col \<in> set (columns df)
          then Some (rows df) else None
      | _ \<Rightarrow> None)"

fun refetch_hk :: "world \<Rightarrow> endpoint list \<Rightarrow> entry list option \<times> endpoint list" where
  "refetch_hk w [] = (None, [])"
| "refetch_hk w (fn # fns) =
     (case usable_snapshot (call_spot w fn) of
        Some sub \<Rightarrow> (Some sub, [fn])
      | None \<Rightarrow> (case refetch_hk w fns of (r, called) \<Rightarrow> (r, fn # called)))"

definition load_hk_cache ::
  "world \<Rightarrow> cache_file option \<Rightarrow> entry list \<times> cache_file option \<times> endpoint list" where
  "load_hk_cache w file =
     (let refetched =
        (case refetch_hk w [Stock_hk_spot_em, Stock_hk_main_board_spot_em] of
           (Some sub, called) \<Rightarrow> (sub, Some \<lparr>mtime = now w, payload = sub\<rparr>, called)
         | (None, called) \<Rightarrow> ([], file, called))
      in case file of
           Some f \<Rightarrow>
             if now w - mtime f < CACHE_TTL then (payload f, file, [])
             else refetched
         | None \<Rightarrow> refetched)"


section \<open>Symbol search (\<open>search_a_stock\<close>, \<open>search_hk_stock\<close>)\<close>

record security =
  symbol :: pystr
  name :: pystr
  current_price :: "rat option"

definition get_a_stock_by_code :: "world \<Rightarrow> pystr \<Rightarrow> exn + security" where
  "get_a_stock_by_code w c =
     (case stock_individual_info_em w c of
        Raises e \<Rightarrow> Inl (Upstream e)
      | ReturnsNone \<Rightarrow> Inl TypeError
      | Returns info \<Rightarrow>
          if length info < 3 then Inl IndexError
          else Inr \<lparr>symbol = c, name = snd (info ! 2), current_price = fst (info ! 0)\<rparr>)"

definition matched_a :: "entry list \<Rightarrow> pystr \<Rightarrow> entry list" where
  "matched_a stock_list query =
     filter (\<lambda>e. code e = query \<or> sublist query (short_name e)) stock_list"

definition name_search_a ::
  "world \<Rightarrow> cache_file option \<Rightarrow> pystr \<Rightarrow> security option \<times> cache_file option" where
  "name_search_a w file query =
     (case load_a_cache w file of
        (Inl e, file', called) \<Rightarrow> (None, file')
      | (Inr stock_list, file', called) \<Rightarrow>
          (case matched_a stock_list query of
             [] \<Rightarrow> (None, file')
           | m # _ \<Rightarrow>
               (case get_a_stock_by_code w (code m) of
                  Inr info \<Rightarrow> (Some (info\<lparr>name := short_name m\<rparr>), file')
                | Inl e \<Rightarrow>
                    (Some \<lparr>symbol = code m, name = short_name m, current_price = None\<rparr>,
                     file'))))"

definition search_a_stock ::
  "world \<Rightarrow> cache_file option \<Rightarrow> pystr \<Rightarrow> security option \<times> cache_file option" where
  "search_a_stock w file query =
     (if isdigit query
      then (case get_a_stock_by_code w query of
              Inr info \<Rightarrow> (Some info, file)
            | Inl e \<Rightarrow> name_search_a w file query)
      else name_search_a w file query)"

text \<open>
  \<open>_get_hk_stock_by_code\<close>: every provider call in it sits in a \<open>try\<close> of its own, so
  it always returns. The ranged history is asked only when the daily history raised; an
  empty daily history leaves the price absent.
\<close>

definition last_price :: "rat list \<Rightarrow> rat option" where
  "last_price hist = (if hist = [] then None else Some (last hist))"

definition get_hk_stock_by_code :: "world \<Rightarrow> pystr \<Rightarrow> security" where
  "get_hk_stock_by_code w c =
     (let c5 = zfill 5 c;
          nm = (case stock_hk_security_profile_em w c5 of
                  Returns (n # _) \<Rightarrow> n
                | _ \<Rightarrow> c5);
          price = (case stock_hk_daily w c5 of
                     Returns hist \<Rightarrow> last_price hist
                   | _ \<Rightarrow>
                       (case stock_hk_hist w c5 of
                          Returns hist \<Rightarrow> last_price hist
                        | _ \<Rightarrow> None))
      in \<lparr>symbol = c5, name = nm, current_price = price\<rparr>)"

definition matched_hk :: "entry list \<Rightarrow> pystr \<Rightarrow> entry list" where
  "matched_hk stock_list query = filter (\<lambda>e. sublist query (short_name e)) stock_list"

definition search_hk_stock ::
  "world \<Rightarrow> cache_file option \<Rightarrow> pystr \<Rightarrow> security option \<times> cache_file option" where
  "search_hk_stock w file query =
     (if isdigit query then (Some (get_hk_stock_by_code w query), file)
      else
        (case load_hk_cache w file of
           (stock_list, file', called) \<Rightarrow>
             if stock_list = [] then (None, file')
             else
               (case matched_hk stock_list query of
                  [] \<Rightarrow> (None, file')
                | m # _ \<Rightarrow> (Some (get_hk_stock_by_code w (code m)), file'))))"


section \<open>Dividends of market A (\<open>get_a_dividend\<close>)\<close>

text \<open>
  The error strings of the program. A literal is kept as its code points; a formatted
  string is a constructor holding what is formatted into it.
\<close>

datatype message =
    Literal pystr
  | Columns_abnormal "pystr list"
  | Exception_text exn
  | Hk_fetch_failed exn
  | Not_found_a pystr
  | Not_found_hk pystr
  | Dividend_failed "message option"
  | Hk_dividend_failed "message option"

definition msg_no_record :: pystr where
  "msg_no_record = [0x65E0, 0x5206, 0x7EA2, 0x8BB0, 0x5F55]"

definition msg_zero_a :: pystr where
  "msg_zero_a =
     [0x8FD1, 0x671F, 0x73B0, 0x91D1, 0x5206, 0x7EA2, 0x91D1, 0x989D, 0x4E3A, 0x20, 0x30]"

definition msg_no_hk_record :: pystr where
  "msg_no_hk_record = [0x65E0, 0x6E2F, 0x80A1, 0x5206, 0x7EA2, 0x8BB0, 0x5F55]"

definition msg_zero_hk :: pystr where
  "msg_zero_hk = [0x5206, 0x7EA2, 0x91D1, 0x989D, 0x89E3, 0x6790, 0x4E3A, 0x20, 0x30]"

definition msg_enter_query :: pystr where
  "msg_enter_query =
     [0x8BF7, 0x8F93, 0x5165, 0x80A1, 0x7968, 0x540D, 0x79F0, 0x6216, 0x4EE3, 0x7801]"

type_synonym div_result = "rat option \<times> pystr list \<times> message option"

text \<open>Column 4 after \<open>fillna(0)\<close>.\<close>

definition amount :: "a_row \<Rightarrow> rat" where
  "amount r = (case per10 r of None \<Rightarrow> 0 | Some x \<Rightarrow> x)"

definition sum_per10 :: "a_row list \<Rightarrow> rat" where
  "sum_per10 rs = sum_list (map amount rs)"

text \<open>
  The payment dates the function reports, before they are formatted: the rows with a
  positive amount, their payment dates without \<open>NaT\<close>, the last two in row order,
  reversed.
\<close>

definition recent_pay_stamps :: "a_row list \<Rightarrow> timestamp list" where
  "recent_pay_stamps rs =
     rev (tail 2 (dropna (map pay_date (filter (\<lambda>r. 0 < amount r) rs))))"

text \<open>
  Column 7 is used when the table has more than 7 columns and the label of column 7 is
  truthy, that is, not the empty string. A date whose formatting raises is passed over.
\<close>

definition a_dates :: "world \<Rightarrow> a_row frame \<Rightarrow> pystr list" where
  "a_dates w df =
     (if 7 < length (columns df) \<and> columns df ! 7 \<noteq> []
      then List.map_filter (strftime_ymd w) (recent_pay_stamps (rows df))
      else [])"

definition recent_a :: "timestamp \<Rightarrow> a_row list \<Rightarrow> a_row list" where
  "recent_a t rs =
     filter (\<lambda>r. case announce r of None \<Rightarrow> False | Some d \<Rightarrow> t - days 365 \<le> d) rs"

definition get_a_dividend :: "world \<Rightarrow> pystr \<Rightarrow> div_result" where
  "get_a_dividend w sy =
     (case stock_dividend_cninfo w sy of
        Raises e \<Rightarrow> (None, [], Some (Exception_text (Upstream e)))
      | ReturnsNone \<Rightarrow> (None, [], Some (Literal msg_no_record))
      | Returns df \<Rightarrow>
          if frame_empty df then (None, [], Some (Literal msg_no_record))
          else if length (columns df) < 5 then (None, [], Some (Columns_abnormal (columns df)))
          else
            (let dates = a_dates w df;
                 df_recent = recent_a (now w) (rows df)
             in if df_recent \<noteq> [] \<and> 0 < sum_per10 df_recent
                then (Some (round6 (sum_per10 df_recent / 10)), dates, None)
                else if 0 < sum_per10 (take 2 (rows df))
                then (Some (round6 (sum_per10 (take 2 (rows df)) / 10)), dates, None)
                else (None, dates, Some (Literal msg_zero_a))))"


section \<open>Dividends of market HK (\<open>_parse_hkd\<close>, \<open>get_hk_dividend\<close>)\<close>

text \<open>The character class \<open>[\d.]\<close>.\<close>

definition in_num_class :: "nat \<Rightarrow> bool" where
  "in_num_class c = (is_decimal c \<or> c = 46)"

text \<open>The number a string of decimal digits of any script denotes.\<close>

definition digits_value :: "pystr \<Rightarrow> nat" where
  "digits_value ds =
     foldl (\<lambda>a c. 10 * a + (case decimal_value c of None \<Rightarrow> 0 | Some v \<Rightarrow> v)) 0 ds"

text \<open>
  \<open>float\<close> on a string of decimal digits and dots, the only strings the two patterns
  capture: a numeral with at most one dot and at least one digit, anything else a
  \<open>ValueError\<close>. A digit of any script counts with its decimal value.
\<close>

definition py_float :: "pystr \<Rightarrow> exn + rat" where
  "py_float s =
     (let ip = takeWhile is_decimal s; r = dropWhile is_decimal s in
      case r of
        [] \<Rightarrow> if ip = [] then Inl ValueError else Inr (of_nat (digits_value ip))
      | d # fp \<Rightarrow>
          if d = 46 \<and> list_all is_decimal fp \<and> (ip \<noteq> [] \<or> fp \<noteq> [])
          then Inr (of_nat (digits_value ip) + of_nat (digits_value fp) / 10 ^ length fp)
          else Inl ValueError)"

text \<open>
  A pattern of the shape \<open>c1 [c2s] ([\d.]+)\<close> tried at the head of a string: the group
  is the longest run of digits and dots after the two characters.
\<close>

definition group_at :: "nat \<Rightarrow> nat list \<Rightarrow> pystr \<Rightarrow> pystr option" where
  "group_at c1 c2s s =
     (case s of
        a # b # rest \<Rightarrow>
          if a = c1 \<and> b \<in> set c2s \<and> takeWhile in_num_class rest \<noteq> []
          then Some (takeWhile in_num_class rest) else None
      | _ \<Rightarrow> None)"

text \<open>\<open>re.search\<close>: the match at the leftmost position that has one.\<close>

fun re_search :: "nat \<Rightarrow> nat list \<Rightarrow> pystr \<Rightarrow> pystr option" where
  "re_search c1 c2s [] = None"
| "re_search c1 c2s (c # cs) =
     (case group_at c1 c2s (c # cs) of
        Some g \<Rightarrow> Some g
      | None \<Rightarrow> re_search c1 c2s cs)"

definition search_hkd :: "pystr \<Rightarrow> pystr option" where
  "search_hkd s = re_search 0x6E2F [0x5E01, 0x5E63] s"

definition search_payout :: "pystr \<Rightarrow> pystr option" where
  "search_payout s = re_search 0x6D3E [0x606F] s"

definition parse_hkd :: "pystr \<Rightarrow> exn + rat" where
  "parse_hkd s =
     (case search_hkd s of
        Some g \<Rightarrow> py_float g
      | None \<Rightarrow>
          (case search_payout s of
             Some g2 \<Rightarrow> py_float g2
           | None \<Rightarrow> Inr 0))"

text \<open>\<open>df[method_col].apply(_parse_hkd)\<close>: the first text that raises ends the whole call.\<close>

fun apply_parse_hkd :: "pystr list \<Rightarrow> exn + rat list" where
  "apply_parse_hkd [] = Inr []"
| "apply_parse_hkd (s # rest) =
     (case parse_hkd s of
        Inl e \<Rightarrow> Inl e
      | Inr x \<Rightarrow> (case apply_parse_hkd rest of Inl e \<Rightarrow> Inl e | Inr xs \<Rightarrow> Inr (x # xs)))"

text \<open>Formatting without a guard: the first date that raises ends the whole call.\<close>

fun format_all :: "(timestamp \<Rightarrow> pystr option) \<Rightarrow> timestamp list \<Rightarrow> pystr list option" where
  "format_all fmt [] = Some []"
| "format_all fmt (v # vs) =
     (case fmt v of
        None \<Rightarrow> None
      | Some s \<Rightarrow> (case format_all fmt vs of None \<Rightarrow> None | Some ss \<Rightarrow> Some (s # ss)))"

definition recent_hk :: "timestamp \<Rightarrow> (hk_row \<times> rat) list \<Rightarrow> (hk_row \<times> rat) list" where
  "recent_hk t rs =
     filter (\<lambda>(r, x). case hk_announce r of None \<Rightarrow> False | Some d \<Rightarrow> t - days 365 \<le> d) rs"

definition sum_hkd :: "(hk_row \<times> rat) list \<Rightarrow> rat" where
  "sum_hkd rs = sum_list (map snd rs)"

definition get_hk_dividend :: "world \<Rightarrow> pystr \<Rightarrow> div_result" where
  "get_hk_dividend w sy =
     (case stock_hk_dividend_payout_em w (zfill 5 sy) of
        Raises e \<Rightarrow> (None, [], Some (Hk_fetch_failed (Upstream e)))
      | ReturnsNone \<Rightarrow> (None, [], Some (Literal msg_no_hk_record))
      | Returns df \<Rightarrow>
          if frame_empty df then (None, [], Some (Literal msg_no_hk_record))
          else if length (columns df) < 5 then (None, [], Some (Hk_fetch_failed IndexError))
          else
            (case apply_parse_hkd (map method_text (rows df)) of
               Inl e \<Rightarrow> (None, [], Some (Hk_fetch_failed e))
             | Inr hkd \<Rightarrow>
                 (let priced = zip (rows df) hkd;
                      stamps = take 2 (dropna (map (exdiv \<circ> fst) (filter (\<lambda>(r, x). 0 < x) priced)))
                  in case format_all (strftime_ymd w) stamps of
                       None \<Rightarrow> (None, [], Some (Hk_fetch_failed ValueError))
                     | Some dates \<Rightarrow>
                         (let df_recent = recent_hk (now w) priced
                          in if df_recent \<noteq> [] \<and> 0 < sum_hkd df_recent
                             then (Some (round6 (sum_hkd df_recent)), dates, None)
                             else if 0 < sum_hkd (take 2 priced)
                             then (Some (round6 (sum_hkd (take 2 priced))), dates, None)
                             else (None, dates, Some (Literal msg_zero_hk))))))"


section \<open>The search route (\<open>search_stock\<close>)\<close>

text \<open>
  The JSON body of the request: a key that is absent is \<open>None\<close>. The result object
  extends the security record, as \<open>result.update(info)\<close> overwrites exactly its three
  fields.
\<close>

record request =
  req_query :: "pystr option"
  req_market :: "pystr option"

datatype currency = CNY | HKD

record query_result = security +
  market :: pystr
  dividend :: "rat option"
  dividend_dates :: "pystr list"
  dividend_currency :: currency
  hkd_rate :: "rat option"
  errors :: "message list"

text \<open>
  The response: the JSON object and the HTTP status. The two error objects differ: the one
  for an empty query has the key \<open>error\<close> only, the one for an unknown HK security also
  has an empty \<open>errors\<close> list.
\<close>

datatype body =
    Error_object message
  | Error_object_with_errors message "message list"
  | Result_object query_result

text \<open>The functions the route calls, in call order, with their argument.\<close>

datatype call =
    Search_a pystr
  | Dividend_a pystr
  | Search_hk pystr
  | Dividend_hk pystr
  | Rate

definition market_a :: pystr where
  "market_a = [65]"

definition shell :: "pystr \<Rightarrow> pystr \<Rightarrow> query_result" where
  "shell query mkt =
     \<lparr>symbol = query, name = [], current_price = None, market = mkt, dividend = None,
      dividend_dates = [], dividend_currency = (if mkt = market_a then CNY else HKD),
      hkd_rate = None, errors = []\<rparr>"

definition update_info :: "query_result \<Rightarrow> security \<Rightarrow> query_result" where
  "update_info result info =
     result\<lparr>symbol := symbol info, name := name info, current_price := current_price info\<rparr>"

definition merge_dividend ::
  "(message option \<Rightarrow> message) \<Rightarrow> query_result \<Rightarrow> div_result \<Rightarrow> query_result" where
  "merge_dividend failed result d =
     (case d of
        (Some dv, dates, err) \<Rightarrow> result\<lparr>dividend := Some dv, dividend_dates := dates\<rparr>
      | (None, dates, err) \<Rightarrow>
          result\<lparr>dividend_dates := dates, errors := errors result @ [failed err]\<rparr>)"

definition search_stock :: "world \<Rightarrow> disk \<Rightarrow> request \<Rightarrow> (body \<times> nat) \<times> disk \<times> call list" where
  "search_stock w d req =
     (let query = strip (case req_query req of None \<Rightarrow> [] | Some q \<Rightarrow> q);
          mkt = (case req_market req of None \<Rightarrow> market_a | Some m \<Rightarrow> m)
      in if query = [] then ((Error_object (Literal msg_enter_query), 400), d, [])
         else if mkt = market_a then
           (case search_a_stock w (cache_a d) query of
              (found, file') \<Rightarrow>
                (let result =
                       (case found of
                          Some info \<Rightarrow> update_info (shell query mkt) info
                        | None \<Rightarrow> (shell query mkt)\<lparr>errors := [Not_found_a query]\<rparr>);
                     result' = merge_dividend Dividend_failed result
                                 (get_a_dividend w (symbol result))
                 in ((Result_object result', 200), d\<lparr>cache_a := file'\<rparr>,
                     [Search_a query, Dividend_a (symbol result)])))
         else
           (case search_hk_stock w (cache_hk d) query of
              (None, file') \<Rightarrow>
                ((Error_object_with_errors (Not_found_hk query) [], 200),
                 d\<lparr>cache_hk := file'\<rparr>, [Search_hk query])
            | (Some info, file') \<Rightarrow>
                (let result = update_info (shell query mkt) info;
                     result' = merge_dividend Hk_dividend_failed result
                                 (get_hk_dividend w (symbol result))
                 in ((Result_object (result'\<lparr>hkd_rate := Some (get_hkd_cny_rate w)\<rparr>), 200),
                     d\<lparr>cache_hk := file'\<rparr>,
                     [Search_hk query, Dividend_hk (symbol result), Rate]))))"


section \<open>Specification-side definitions and example inputs\<close>

text \<open>
  What the specification says of the two text patterns, stated on positions: the pattern
  \<open>c1 [c2s] ([\d.]+)\<close> matches at position \<open>i\<close> of a text when the two characters
  stand there and a digit or dot follows them; the captured run is the longest stretch of
  digits and dots from there.
\<close>

definition pattern_at :: "nat \<Rightarrow> nat list \<Rightarrow> pystr \<Rightarrow> nat \<Rightarrow> bool" where
  "pattern_at c1 c2s s i =
     (i + 2 < length s \<and> s ! i = c1 \<and> s ! (i + 1) \<in> set c2s \<and> in_num_class (s ! (i + 2)))"

definition hkd_at :: "pystr \<Rightarrow> nat \<Rightarrow> bool" where
  "hkd_at s i = pattern_at 0x6E2F [0x5E01, 0x5E63] s i"

definition payout_at :: "pystr \<Rightarrow> nat \<Rightarrow> bool" where
  "payout_at s i = pattern_at 0x6D3E [0x606F] s i"

definition run_at :: "pystr \<Rightarrow> nat \<Rightarrow> pystr" where
  "run_at s i = takeWhile in_num_class (drop (i + 2) s)"

text \<open>The two texts of the specification's parsing example, and a text with two dots.\<close>

definition example_hkd_text :: pystr where
  "example_hkd_text =
     [0x6BCF, 0x80A1, 0x6D3E, 0x606F, 49, 46, 48, 49, 51, 0x5143, 40,
      0x76F8, 0x5F53, 0x4E8E, 0x6E2F, 0x5E01, 49, 46, 49, 49, 56, 53, 57, 53, 0x5143, 41]"

definition example_payout_text :: pystr where
  "example_payout_text = [0x6D3E, 0x606F, 48, 46, 53, 0x5143]"

definition two_dot_text :: pystr where
  "two_dot_text = [0x6E2F, 0x5E01, 49, 46, 50, 46, 51]"

text \<open>
  The HKD glyph pair followed by the full-width digits 1 and 2, and by the digit 1 and the
  full-width digit 2.
\<close>

definition fullwidth_text :: pystr where
  "fullwidth_text = [0x6E2F, 0x5E01, 0xFF11, 0xFF12, 0x5143]"

definition mixed_digit_text :: pystr where
  "mixed_digit_text = [0x6E2F, 0x5E01, 49, 0xFF12, 0x5143]"


text \<open>
  \<open>strftime('%Y-%m-%d')\<close> for the example worlds: the civil date of a day count from
  1970-01-01 in the proleptic Gregorian calendar, written with four, two and two digits.
\<close>

definition civil_from_days :: "int \<Rightarrow> int \<times> int \<times> int" where
  "civil_from_days z0 =
     (let z = z0 + 719468;
          era = z div 146097;
          doe = z - era * 146097;
          yoe = (doe - doe div 1460 + doe div 36524 - doe div 146096) div 365;
          doy = doe - (365 * yoe + yoe div 4 - yoe div 100);
          mp = (5 * doy + 2) div 153;
          d = doy - (153 * mp + 2) div 5 + 1;
          m = (if mp < 10 then mp + 3 else mp - 9);
          y = yoe + era * 400 + (if m \<le> 2 then 1 else 0)
      in (y, m, d))"

definition two_digits :: "int \<Rightarrow> pystr" where
  "two_digits n = [48 + nat (n div 10 mod 10), 48 + nat (n mod 10)]"

definition ymd :: "timestamp \<Rightarrow> pystr option" where
  "ymd t =
     (case civil_from_days (t div 86400) of
        (y, m, d) \<Rightarrow>
          if 1 \<le> y \<and> y \<le> 9999
          then Some (two_digits (y div 100) @ two_digits y @ [45] @ two_digits m @ [45]
                     @ two_digits d)
          else None)"

text \<open>A world in which every provider call raises; the examples override what they need.\<close>

definition offline_world :: world where
  "offline_world =
     \<lparr>now = 1730678400, strftime_ymd = ymd, fx_spot_quote = Raises [],
      currency_boc_sina = Raises [], stock_zh_a_spot_em = Raises [],
      stock_individual_info_em = (\<lambda>c. Raises []),
      stock_hk_security_profile_em = (\<lambda>c. Raises []), stock_hk_daily = (\<lambda>c. Raises []),
      stock_hk_hist = (\<lambda>c. Raises []), stock_hk_spot_em = Raises [],
      stock_hk_main_board_spot_em = Raises [], stock_dividend_cninfo = (\<lambda>c. Raises []),
      stock_hk_dividend_payout_em = (\<lambda>c. Raises [])\<rparr>"

text \<open>Eleven distinct column labels, as many as \<open>stock_dividend_cninfo\<close> returns.\<close>

definition cninfo_columns :: "pystr list" where
  "cninfo_columns = [[48], [49], [50], [51], [52], [53], [54], [55], [56], [57], [49, 48]]"

text \<open>
  What the specification says of the market-A amount: the trailing window is the 365-day
  period ending at the time \<open>t\<close> of the query, so a row is in it when its announcement
  date parses, is not earlier than 365 days before \<open>t\<close> and is not later than \<open>t\<close>;
  column 4 counts as 0 where it is not a number.
\<close>

definition in_trailing_window :: "timestamp \<Rightarrow> a_row \<Rightarrow> bool" where
  "in_trailing_window t r = (\<exists>d. announce r = Some d \<and> t - 365 * 86400 \<le> d \<and> d \<le> t)"

definition column4 :: "a_row \<Rightarrow> rat" where
  "column4 r = (case per10 r of None \<Rightarrow> 0 | Some x \<Rightarrow> x)"

definition trailing_sum :: "timestamp \<Rightarrow> a_row list \<Rightarrow> rat" where
  "trailing_sum t rs = (\<Sum>r\<leftarrow>filter (in_trailing_window t) rs. column4 r / 10)"

definition first_two_sum :: "a_row list \<Rightarrow> rat" where
  "first_two_sum rs = (\<Sum>r\<leftarrow>take 2 rs. column4 r)"

text \<open>
  The rows announced since a year before \<open>t\<close>: the announcement date parses and is not
  earlier than 365 days before \<open>t\<close>, with no bound on the other side. A history has no
  future rows at \<open>t\<close> when no announcement date of it is later than \<open>t\<close>.
\<close>

definition announced_since :: "timestamp \<Rightarrow> a_row \<Rightarrow> bool" where
  "announced_since t r = (\<exists>d. announce r = Some d \<and> t - 365 * 86400 \<le> d)"

definition since_sum :: "timestamp \<Rightarrow> a_row list \<Rightarrow> rat" where
  "since_sum t rs = (\<Sum>r\<leftarrow>filter (announced_since t) rs. column4 r / 10)"

definition no_future_rows :: "timestamp \<Rightarrow> a_row list \<Rightarrow> bool" where
  "no_future_rows t rs = list_all (\<lambda>r. case announce r of None \<Rightarrow> True | Some d \<Rightarrow> d \<le> t) rs"

text \<open>
  The specification's window example at time \<open>t\<close>: 5 per 10 shares announced 200 days
  ago, 3 per 10 shares announced 400 days ago.
\<close>

definition window_example :: "timestamp \<Rightarrow> a_row frame" where
  "window_example t =
     \<lparr>columns = cninfo_columns,
      rows = [\<lparr>announce = Some (t - days 200), per10 = Some 5, pay_date = None\<rparr>,
              \<lparr>announce = Some (t - days 400), per10 = Some 3, pay_date = None\<rparr>]\<rparr>"

definition world_of_history :: "timestamp \<Rightarrow> a_row frame \<Rightarrow> world" where
  "world_of_history t df =
     offline_world\<lparr>now := t, stock_dividend_cninfo := (\<lambda>c. Returns df)\<rparr>"

text \<open>
  Histories read at 2024-11-04 (1730678400). The first adds to the window example a row
  of 7 per 10 shares announced one day after the query. The second has that row and two
  rows announced 400 and 800 days before the query, of 4 and 2 per 10 shares.
\<close>

definition future_history :: "a_row frame" where
  "future_history =
     \<lparr>columns = cninfo_columns,
      rows = [\<lparr>announce = Some 1730764800, per10 = Some 7, pay_date = None\<rparr>,
              \<lparr>announce = Some 1713398400, per10 = Some 5, pay_date = None\<rparr>,
              \<lparr>announce = Some 1696118400, per10 = Some 3, pay_date = None\<rparr>]\<rparr>"

definition future_gap_history :: "a_row frame" where
  "future_gap_history =
     \<lparr>columns = cninfo_columns,
      rows = [\<lparr>announce = Some 1730764800, per10 = Some 7, pay_date = None\<rparr>,
              \<lparr>announce = Some 1696118400, per10 = Some 4, pay_date = None\<rparr>,
              \<lparr>announce = Some 1661558400, per10 = Some 2, pay_date = None\<rparr>]\<rparr>"

text \<open>
  A history with one row of 1.2345678 per 10 shares announced exactly 365 days before the
  query (1699142400), and one of 3 per 10 shares announced one second earlier: the first
  is the oldest announcement that counts, and its amount per share has more than 6
  decimals.
\<close>

definition fine_history :: "a_row frame" where
  "fine_history =
     \<lparr>columns = cninfo_columns,
      rows = [\<lparr>announce = Some 1699142400, per10 = Some (12345678 / 10000000), pay_date = None\<rparr>,
              \<lparr>announce = Some 1699142399, per10 = Some 3, pay_date = None\<rparr>]\<rparr>"

text \<open>
  A history whose rows are all older than a year at 2024-11-04, newest first, paying
  4 and 2 per 10 shares in its first two rows.
\<close>

definition old_history :: "a_row frame" where
  "old_history =
     \<lparr>columns = cninfo_columns,
      rows = [\<lparr>announce = Some 1686787200, per10 = Some 4, pay_date = Some 1686787200\<rparr>,
              \<lparr>announce = Some 1655337600, per10 = Some 2, pay_date = Some 1655337600\<rparr>,
              \<lparr>announce = Some 951782400, per10 = Some 1, pay_date = Some 951782400\<rparr>]\<rparr>"

text \<open>
  A history newest first whose newest row was announced one second more than 365 days
  before the query, with 1.2345678 and 2 per 10 shares in its first two rows.
\<close>

definition old_fine_history :: "a_row frame" where
  "old_fine_history =
     \<lparr>columns = cninfo_columns,
      rows = [\<lparr>announce = Some 1699142399, per10 = Some (12345678 / 10000000),
               pay_date = Some 1699142399\<rparr>,
              \<lparr>announce = Some 1655337600, per10 = Some 2, pay_date = Some 1655337600\<rparr>,
              \<lparr>announce = Some 951782400, per10 = Some 1, pay_date = Some 951782400\<rparr>]\<rparr>"

text \<open>A history of two rows without cash: a non-numeric amount and a zero.\<close>

definition no_cash_history :: "a_row frame" where
  "no_cash_history =
     \<lparr>columns = cninfo_columns,
      rows = [\<lparr>announce = Some 1718841600, per10 = None, pay_date = Some 1718841600\<rparr>,
              \<lparr>announce = Some 1686787200, per10 = Some 0, pay_date = Some 1686787200\<rparr>]\<rparr>"

text \<open>
  What the function's documentation says of the recent dates: the most recent two payment
  dates, that is, of the payment dates of the rows with cash the last two chronologically,
  the most recent first.
\<close>

definition chronological_last_two :: "timestamp list \<Rightarrow> timestamp list" where
  "chronological_last_two stamps = take 2 (rev (sort stamps))"

definition cash_pay_stamps :: "a_row list \<Rightarrow> timestamp list" where
  "cash_pay_stamps rs = List.map_filter pay_date (filter (\<lambda>r. 0 < column4 r) rs)"


text \<open>
  What the specification says of the rate, stated on lists: the spot candidates are the
  values within [0.5, 1.5] of the rows that mention the currency, in scan order; the bank
  candidates are the latest values above 10 of the mid-rate and benchmark columns, in
  column order.
\<close>

definition spot_rows :: "world \<Rightarrow> spot_row list" where
  "spot_rows w = (case fx_spot_quote w of Returns df \<Rightarrow> df | _ \<Rightarrow> [])"

definition bank_columns :: "world \<Rightarrow> boc_column list" where
  "bank_columns w = (case currency_boc_sina w of Returns df \<Rightarrow> df | _ \<Rightarrow> [])"

definition plausible :: "rat \<Rightarrow> bool" where
  "plausible r = (1 / 2 \<le> r \<and> r \<le> 3 / 2)"

definition spot_candidates :: "spot_row list \<Rightarrow> rat list" where
  "spot_candidates df =
     concat (map (\<lambda>row. filter plausible (dropna (cell_floats row))) (filter mentions_hkd df))"

definition bank_values :: "boc_column list \<Rightarrow> rat list" where
  "bank_values df = dropna (map latest (filter names_mid_or_benchmark df))"

definition bank_candidates :: "boc_column list \<Rightarrow> rat list" where
  "bank_candidates df = filter (\<lambda>val. 10 < val) (bank_values df)"

text \<open>
  The bank step as the claim words it: the latest mid-rate or benchmark value, divided by
  100 if it exceeds 10, and taken as it is otherwise.
\<close>

definition claimed_rate :: "world \<Rightarrow> rat" where
  "claimed_rate w =
     (case spot_candidates (spot_rows w) of
        r # _ \<Rightarrow> round6 r
      | [] \<Rightarrow>
          (case bank_values (bank_columns w) of
             val # _ \<Rightarrow> round6 (if 10 < val then val / 100 else val)
           | [] \<Rightarrow> default_rate))"

text \<open>A world whose spot quotes fail and whose bank table quotes 0.92 per unit.\<close>

definition per_unit_bank_world :: world where
  "per_unit_bank_world =
     offline_world\<lparr>currency_boc_sina :=
       Returns [\<lparr>names_mid_or_benchmark = True, latest = Some (92 / 100)\<rparr>]\<rparr>"

text \<open>A world whose spot quotes fail and whose bank table quotes 92.31 per 100 units.\<close>

definition per_hundred_bank_world :: world where
  "per_hundred_bank_world =
     offline_world\<lparr>currency_boc_sina :=
       Returns [\<lparr>names_mid_or_benchmark = False, latest = Some (9150 / 100)\<rparr>,
                \<lparr>names_mid_or_benchmark = True, latest = Some (9231 / 100)\<rparr>]\<rparr>"

text \<open>
  A world whose spot quotes hold a row of another currency with a value in range, then
  the HKD row with a non-numeric cell, a value out of range and the rate.
\<close>

definition spot_world :: world where
  "spot_world =
     offline_world\<lparr>fx_spot_quote :=
       Returns [\<lparr>mentions_hkd = False, cell_floats = [None, Some (108 / 100)]\<rparr>,
                \<lparr>mentions_hkd = True, cell_floats = [None, Some 7, Some (9234567 / 10000000)]\<rparr>]\<rparr>"


text \<open>
  Example snapshots and artifacts: a market-A table and a market-HK table with the two
  columns the loaders project, a world in which the market-A snapshot and the alternate
  market-HK snapshot are available and the primary market-HK snapshot raises, and
  artifacts written 23 and 25 hours before that world's clock.
\<close>

definition a_table :: "entry frame" where
  "a_table =
     \<lparr>columns = [[0x5E8F, 0x53F7], code_col, name_col],
      rows = [\<lparr>code = [54, 48, 48, 53, 49, 57], short_name = [0x8D35, 0x5DDE, 0x8305, 0x53F0]\<rparr>,
              \<lparr>code = [48, 48, 48, 48, 48, 49], short_name = [0x5E73, 0x5B89, 0x94F6, 0x884C]\<rparr>]\<rparr>"

definition hk_table :: "entry frame" where
  "hk_table =
     \<lparr>columns = [code_col, name_col],
      rows = [\<lparr>code = [48, 48, 55, 48, 48], short_name = [0x817E, 0x8BAF, 0x63A7, 0x80A1]\<rparr>]\<rparr>"

definition snapshot_world :: world where
  "snapshot_world =
     offline_world\<lparr>stock_zh_a_spot_em := Returns a_table,
                   stock_hk_main_board_spot_em := Returns hk_table\<rparr>"

definition old_payload :: "entry list" where
  "old_payload = [\<lparr>code = [48, 48, 48, 48, 53], short_name = [0x6C47, 0x4E30, 0x63A7, 0x80A1]\<rparr>]"

definition file_23h :: cache_file where
  "file_23h = \<lparr>mtime = 1730678400 - 23 * 3600, payload = old_payload\<rparr>"

definition file_25h :: cache_file where
  "file_25h = \<lparr>mtime = 1730678400 - 25 * 3600, payload = old_payload\<rparr>"


text \<open>
  What the specification says of the cached search of market A: a row matches when its
  code equals the query or its name contains the query, and the name of the result is the
  cached one, whatever the direct lookup returned. A snapshot has provider codes when
  every code is a string of digits, as the provider lists them.
\<close>

definition rule_a :: "pystr \<Rightarrow> entry \<Rightarrow> bool" where
  "rule_a q e = (code e = q \<or> sublist q (short_name e))"

definition provider_codes :: "entry list \<Rightarrow> bool" where
  "provider_codes universe = list_all (\<lambda>e. isdigit (code e)) universe"

definition a_result :: "world \<Rightarrow> entry \<Rightarrow> security" where
  "a_result w m =
     \<lparr>symbol = code m, name = short_name m,
      current_price = (case get_a_stock_by_code w (code m) of
                         Inr info \<Rightarrow> current_price info
                       | Inl e \<Rightarrow> None)\<rparr>"

text \<open>
  The result of the cached search of market HK if it had the shape of market A's: the
  direct lookup of market HK with the cached name put over its name.
\<close>

definition claimed_hk_result :: "world \<Rightarrow> entry \<Rightarrow> security" where
  "claimed_hk_result w m = (get_hk_stock_by_code w (code m))\<lparr>name := short_name m\<rparr>"

text \<open>
  A market-HK snapshot of one security, code 00700, and two worlds that return it: in the
  first the security profile raises, in the second it returns the name in traditional
  script.
\<close>

definition one_hk_table :: "entry frame" where
  "one_hk_table =
     \<lparr>columns = [code_col, name_col],
      rows = [\<lparr>code = [48, 48, 55, 48, 48], short_name = [0x817E, 0x8BAF, 0x63A7, 0x80A1]\<rparr>]\<rparr>"

definition profile_down_world :: world where
  "profile_down_world = offline_world\<lparr>stock_hk_spot_em := Returns one_hk_table\<rparr>"

definition profile_up_world :: world where
  "profile_up_world =
     offline_world\<lparr>stock_hk_spot_em := Returns one_hk_table,
                   stock_hk_security_profile_em :=
                     (\<lambda>c. Returns [[0x9A30, 0x8A0A, 0x63A7, 0x80A1]])\<rparr>"

text \<open>
  A snapshot of three securities, and a world in which both markets' primary snapshot
  functions return it and the daily history of 00005 is known.
\<close>

definition two_hk_table :: "entry frame" where
  "two_hk_table =
     \<lparr>columns = [code_col, name_col],
      rows = [\<lparr>code = [48, 48, 55, 48, 48], short_name = [0x817E, 0x8BAF, 0x63A7, 0x80A1]\<rparr>,
              \<lparr>code = [48, 48, 48, 48, 53], short_name = [0x6C47, 0x4E30, 0x63A7, 0x80A1]\<rparr>,
              \<lparr>code = [48, 50, 51, 56, 56], short_name = [0x4E2D, 0x94F6, 0x9999, 0x6E2F]\<rparr>]\<rparr>"

definition two_hk_world :: world where
  "two_hk_world =
     offline_world\<lparr>stock_hk_spot_em := Returns two_hk_table,
                   stock_zh_a_spot_em := Returns two_hk_table,
                   stock_hk_daily := (\<lambda>c. if c = [48, 48, 48, 48, 53] then Returns [64, 65] else Raises [])\<rparr>"


text \<open>Example requests: a query of white space, an untracked code on market A, a name on market HK.\<close>

definition blank_request :: request where
  "blank_request = \<lparr>req_query = Some [32, 9, 0x3000], req_market = Some [72, 75]\<rparr>"

definition untracked_a_request :: request where
  "untracked_a_request = \<lparr>req_query = Some [32, 54, 48, 48, 32], req_market = None\<rparr>"

definition unknown_hk_request :: request where
  "unknown_hk_request = \<lparr>req_query = Some [65, 66, 67], req_market = Some [72, 75]\<rparr>"

definition no_disk :: disk where
  "no_disk = \<lparr>cache_a = None, cache_hk = None\<rparr>"


section \<open>Digits\<close>

text \<open>The digit tables on the stretches of code points the examples use.\<close>

lemma decimal_value_low:
  "c < 0x660 \<Longrightarrow> decimal_value c = (if 48 \<le> c \<and> c < 58 then Some (c - 48) else None)"
  by (simp add: decimal_value_def decimal_starts_def)

lemma decimal_value_cjk: "0x1C5A \<le> c \<Longrightarrow> c < 0xA620 \<Longrightarrow> decimal_value c = None"
  by (simp add: decimal_value_def decimal_starts_def)

lemma decimal_value_fullwidth:
  "0xFF10 \<le> c \<Longrightarrow> c < 0xFF1A \<Longrightarrow> decimal_value c = Some (c - 0xFF10)"
  by (simp add: decimal_value_def decimal_starts_def)

lemma is_digit_char_low: "c < 0xB2 \<Longrightarrow> is_digit_char c = (48 \<le> c \<and> c \<le> 57)"
  by (simp add: is_digit_char_def digit_ranges_def)

lemma is_digit_char_cjk: "0x2793 \<le> c \<Longrightarrow> c < 0xA620 \<Longrightarrow> \<not> is_digit_char c"
  by (simp add: is_digit_char_def digit_ranges_def)

lemma is_digit_char_fullwidth: "0xFF10 \<le> c \<Longrightarrow> c \<le> 0xFF19 \<Longrightarrow> is_digit_char c"
  by (simp add: is_digit_char_def digit_ranges_def)

lemmas digit_facts =
  is_decimal_def decimal_value_low decimal_value_cjk decimal_value_fullwidth

lemmas isdigit_facts =
  isdigit_def is_digit_char_low is_digit_char_cjk is_digit_char_fullwidth


section \<open>The text parser of market HK\<close>

lemma takeWhile_nonempty: "(takeWhile P xs \<noteq> []) = (xs \<noteq> [] \<and> P (hd xs))"
  by (cases xs) auto

lemma group_at_pattern:
  "group_at c1 c2s s =
     (if pattern_at c1 c2s s 0 then Some (takeWhile in_num_class (drop 2 s)) else None)"
  by (auto simp: group_at_def pattern_at_def takeWhile_nonempty hd_conv_nth split: list.splits)

lemma pattern_at_Cons: "pattern_at c1 c2s (c # cs) (Suc i) = pattern_at c1 c2s cs i"
  by (simp add: pattern_at_def)

lemma re_search_None: "(re_search c1 c2s s = None) = (\<forall>i. \<not> pattern_at c1 c2s s i)"
proof (induction s)
  case Nil
  then show ?case by (simp add: pattern_at_def)
next
  case (Cons c cs)
  show ?case
  proof (cases "pattern_at c1 c2s (c # cs) 0")
    case True
    then show ?thesis by (auto simp: group_at_pattern)
  next
    case False
    have "(\<forall>i. \<not> pattern_at c1 c2s (c # cs) i) = (\<forall>i. \<not> pattern_at c1 c2s cs i)"
      using False pattern_at_Cons by (metis not0_implies_Suc)
    with False Cons show ?thesis by (simp add: group_at_pattern)
  qed
qed

lemma re_search_leftmost:
  "pattern_at c1 c2s s i \<Longrightarrow> \<forall>j<i. \<not> pattern_at c1 c2s s j \<Longrightarrow>
   re_search c1 c2s s = Some (takeWhile in_num_class (drop (i + 2) s))"
proof (induction s arbitrary: i)
  case Nil
  then show ?case by (simp add: pattern_at_def)
next
  case (Cons c cs)
  show ?case
  proof (cases i)
    case 0
    with Cons.prems show ?thesis by (simp add: group_at_pattern)
  next
    case (Suc k)
    with Cons.prems have no0: "\<not> pattern_at c1 c2s (c # cs) 0" by blast
    from Suc Cons.prems have at: "pattern_at c1 c2s cs k" by (simp add: pattern_at_Cons)
    have "\<forall>j<k. \<not> pattern_at c1 c2s cs j"
      using Cons.prems(2) Suc pattern_at_Cons by (metis Suc_less_eq)
    from Cons.IH[OF at this] no0 Suc show ?thesis by (simp add: group_at_pattern)
  qed
qed

lemma parse_hkd_hkd_first:
  assumes "hkd_at s i" and "\<forall>j<i. \<not> hkd_at s j"
  shows "parse_hkd s = py_float (run_at s i)"
  using re_search_leftmost[of "0x6E2F" "[0x5E01, 0x5E63]" s i] assms
  by (simp add: parse_hkd_def search_hkd_def hkd_at_def run_at_def)

lemma parse_hkd_payout_second:
  assumes "\<forall>j. \<not> hkd_at s j" and "payout_at s i" and "\<forall>j<i. \<not> payout_at s j"
  shows "parse_hkd s = py_float (run_at s i)"
proof -
  have "search_hkd s = None"
    using assms(1) by (simp add: search_hkd_def hkd_at_def re_search_None)
  moreover have "search_payout s = Some (run_at s i)"
    using re_search_leftmost[of "0x6D3E" "[0x606F]" s i] assms(2,3)
    by (simp add: search_payout_def payout_at_def run_at_def)
  ultimately show ?thesis by (simp add: parse_hkd_def)
qed

lemma parse_hkd_neither:
  assumes "\<forall>j. \<not> hkd_at s j" and "\<forall>j. \<not> payout_at s j"
  shows "parse_hkd s = Inr 0"
proof -
  have "search_hkd s = None"
    using assms(1) by (simp add: search_hkd_def hkd_at_def re_search_None)
  moreover have "search_payout s = None"
    using assms(2) by (simp add: search_payout_def payout_at_def re_search_None)
  ultimately show ?thesis by (simp add: parse_hkd_def)
qed

lemmas parser_defs =
  parse_hkd_def search_hkd_def search_payout_def group_at_def in_num_class_def digit_facts
  py_float_def digits_value_def

lemma parse_example_hkd_text: "parse_hkd example_hkd_text = Inr (1118595 / 1000000)"
  by (simp add: parser_defs example_hkd_text_def)

lemma parse_example_payout_text: "parse_hkd example_payout_text = Inr (1 / 2)"
  by (simp add: parser_defs example_payout_text_def)

lemma parse_fullwidth_texts:
  "parse_hkd fullwidth_text = Inr 12" "parse_hkd mixed_digit_text = Inr 12"
  by (simp_all add: parser_defs fullwidth_text_def mixed_digit_text_def)

text \<open>
  C3 (as stated): applied to any distribution text the parser yields the number after the
  HKD glyph, else the number after the payout word, else 0. It does not on every text: a
  run of digits and dots that is no numeral, as in the text of the glyph followed by
  \<open>1.2.3\<close>, is captured whole and handed to \<open>float\<close>, which raises.
\<close>

theorem parse_hkd_two_dots_raises: "parse_hkd two_dot_text = Inl ValueError"
  by (simp add: parser_defs two_dot_text_def)

text \<open>
  C3 (amended): the parser takes the run of digits and dots after the leftmost HKD glyph
  pair (simplified or traditional) that a digit or dot follows; if there is none, the run
  after the leftmost payout word that a digit or dot follows; where the run it takes is a
  numeral, the result is its value. With neither pattern in the text the result is 0. A
  digit is a decimal digit of any script, as for \<open>\d\<close> and \<open>float\<close>: the
  glyph pair followed by the full-width digits 1 and 2 parses to 12. The specification's
  two example texts parse to 1.118595 and to 0.5.
\<close>

theorem parse_hkd_prefers_hkd_then_payout:
  "(hkd_at s i \<and> (\<forall>j<i. \<not> hkd_at s j) \<and> py_float (run_at s i) = Inr x
      \<longrightarrow> parse_hkd s = Inr x)
   \<and> ((\<forall>j. \<not> hkd_at s j) \<and> payout_at s i \<and> (\<forall>j<i. \<not> payout_at s j)
        \<and> py_float (run_at s i) = Inr x
      \<longrightarrow> parse_hkd s = Inr x)
   \<and> ((\<forall>j. \<not> hkd_at s j) \<and> (\<forall>j. \<not> payout_at s j) \<longrightarrow> parse_hkd s = Inr 0)
   \<and> parse_hkd example_hkd_text = Inr (1118595 / 1000000)
   \<and> parse_hkd example_payout_text = Inr (1 / 2)
   \<and> parse_hkd fullwidth_text = Inr 12 \<and> parse_hkd mixed_digit_text = Inr 12"
  using parse_hkd_hkd_first[of s i] parse_hkd_payout_second[of s i] parse_hkd_neither[of s]
    parse_example_hkd_text parse_example_payout_text parse_fullwidth_texts
  by simp

theorem parse_hkd_prefers_hkd_then_payout_witness:
  "hkd_at [0x6E2F, 0x5E63, 50, 46, 53, 0x5143] 0
   \<and> parse_hkd [0x6E2F, 0x5E63, 50, 46, 53, 0x5143] = Inr (5 / 2)
   \<and> (\<forall>j. \<not> hkd_at [0x6D3E, 0x606F, 51] j) \<and> payout_at [0x6D3E, 0x606F, 51] 0
   \<and> parse_hkd [0x6D3E, 0x606F, 51] = Inr 3
   \<and> (\<forall>j. \<not> hkd_at [0x5143] j) \<and> (\<forall>j. \<not> payout_at [0x5143] j)
   \<and> parse_hkd [0x5143] = Inr 0"
proof -
  have a: "hkd_at [0x6E2F, 0x5E63, 50, 46, 53, 0x5143] 0"
    by (simp add: hkd_at_def pattern_at_def in_num_class_def digit_facts)
  have b: "py_float (run_at [0x6E2F, 0x5E63, 50, 46, 53, 0x5143] 0) = Inr (5 / 2)"
    by (simp add: run_at_def parser_defs)
  have c: "\<forall>j. \<not> hkd_at [0x6D3E, 0x606F, 51] j"
    by (auto simp: hkd_at_def pattern_at_def)
  have d: "payout_at [0x6D3E, 0x606F, 51] 0"
    by (simp add: payout_at_def pattern_at_def in_num_class_def digit_facts)
  have e: "py_float (run_at [0x6D3E, 0x606F, 51] 0) = Inr 3"
    by (simp add: run_at_def parser_defs)
  have f: "\<forall>j. \<not> hkd_at [0x5143] j" "\<forall>j. \<not> payout_at [0x5143] j"
    by (simp_all add: hkd_at_def payout_at_def pattern_at_def)
  show ?thesis
    using parse_hkd_prefers_hkd_then_payout[of "[0x6E2F, 0x5E63, 50, 46, 53, 0x5143]" 0 "5 / 2"]
      parse_hkd_prefers_hkd_then_payout[of "[0x6D3E, 0x606F, 51]" 0 3]
      parse_hkd_prefers_hkd_then_payout[of "[0x5143]" 0 0]
      a b c d e f
    by simp
qed


section \<open>Dividends of market A\<close>

lemma column4_amount: "column4 r = amount r"
  by (simp add: column4_def amount_def)

lemma sum_per10_div: "(\<Sum>r\<leftarrow>rs. column4 r / 10) = sum_per10 rs / 10"
  by (induction rs) (simp_all add: sum_per10_def column4_amount add_divide_distrib)

lemma recent_a_since: "recent_a t rs = filter (announced_since t) rs"
  unfolding recent_a_def announced_since_def days_def
  by (rule filter_cong) (auto split: option.splits)

lemma since_sum_code: "since_sum t rs = sum_per10 (recent_a t rs) / 10"
  by (simp add: since_sum_def sum_per10_div recent_a_since)

lemma first_two_sum_code: "first_two_sum rs = sum_per10 (take 2 rs)"
  by (simp add: first_two_sum_def sum_per10_def column4_amount)

lemma since_is_window:
  assumes "no_future_rows t rs"
  shows "filter (announced_since t) rs = filter (in_trailing_window t) rs"
proof (rule filter_cong)
  fix r assume "r \<in> set rs"
  then have "case announce r of None \<Rightarrow> True | Some d \<Rightarrow> d \<le> t"
    using assms by (simp add: no_future_rows_def list_all_iff)
  then show "announced_since t r = in_trailing_window t r"
    by (auto simp: announced_since_def in_trailing_window_def)
qed simp

lemma since_sum_is_trailing_sum:
  assumes "no_future_rows t rs"
  shows "since_sum t rs = trailing_sum t rs"
  by (simp add: since_sum_def trailing_sum_def since_is_window[OF assms])

lemma cash_pay_stamps_code:
  "cash_pay_stamps rs = dropna (map pay_date (filter (\<lambda>r. 0 < amount r) rs))"
  unfolding cash_pay_stamps_def dropna_def
  by (induction rs) (simp_all add: map_filter_simps column4_amount split: option.splits)

lemma sum_per10_Nil: "sum_per10 [] = 0"
  by (simp add: sum_per10_def)

lemma sum_per10_zero: "\<forall>r\<in>set rs. amount r = 0 \<Longrightarrow> sum_per10 rs = 0"
  by (induction rs) (simp_all add: sum_per10_def)

lemma get_a_dividend_frame:
  assumes "stock_dividend_cninfo w sy = Returns df" and "\<not> frame_empty df"
    and "5 \<le> length (columns df)"
  shows "get_a_dividend w sy =
     (if recent_a (now w) (rows df) \<noteq> [] \<and> 0 < sum_per10 (recent_a (now w) (rows df))
      then (Some (round6 (sum_per10 (recent_a (now w) (rows df)) / 10)), a_dates w df, None)
      else if 0 < sum_per10 (take 2 (rows df))
      then (Some (round6 (sum_per10 (take 2 (rows df)) / 10)), a_dates w df, None)
      else (None, a_dates w df, Some (Literal msg_zero_a)))"
  using assms by (simp add: get_a_dividend_def Let_def)

lemma get_a_dividend_since:
  assumes "stock_dividend_cninfo w sy = Returns df" and "\<not> frame_empty df"
    and "5 \<le> length (columns df)" and "0 < since_sum (now w) (rows df)"
  shows "fst (get_a_dividend w sy) = Some (round6 (since_sum (now w) (rows df)))"
proof -
  have pos: "0 < sum_per10 (recent_a (now w) (rows df))"
    using assms(4) by (simp add: since_sum_code)
  then have "recent_a (now w) (rows df) \<noteq> []"
    by (auto simp: sum_per10_Nil)
  with pos show ?thesis
    by (simp add: get_a_dividend_frame[OF assms(1-3)] since_sum_code)
qed

lemma world_of_history_fields:
  "now (world_of_history t df) = t"
  "stock_dividend_cninfo (world_of_history t df) sy = Returns df"
  "strftime_ymd (world_of_history t df) = ymd"
  by (simp_all add: world_of_history_def offline_world_def)

lemma cninfo_columns_length: "length cninfo_columns = 11"
  by (simp add: cninfo_columns_def)

lemma round6_simple:
  "round6 (1 / 2) = 1 / 2" "round6 (3 / 5) = 3 / 5" "round6 (6 / 5) = 6 / 5"
  "round6 (7 / 10) = 7 / 10" "round6 (11 / 10) = 11 / 10"
  by (simp_all add: round6_def round_half_even_def)

lemma round6_fine:
  "round6 (12345678 / 100000000) = 123457 / 1000000"
  "round6 (32345678 / 10000000 / 10) = 323457 / 1000000"
  by code_simp+

lemma window_example_sum: "since_sum t (rows (window_example t)) = 1 / 2"
  by (simp add: since_sum_def announced_since_def window_example_def days_def column4_def)

lemma window_example_amount:
  "fst (get_a_dividend (world_of_history t (window_example t)) sy) = Some (1 / 2)"
proof -
  have "fst (get_a_dividend (world_of_history t (window_example t)) sy) =
        Some (round6 (since_sum (now (world_of_history t (window_example t)))
                (rows (window_example t))))"
    by (rule get_a_dividend_since)
       (simp_all add: world_of_history_fields window_example_sum,
        simp_all add: window_example_def frame_empty_def cninfo_columns_def)
  then show ?thesis
    by (simp add: world_of_history_fields window_example_sum round6_simple)
qed

lemma history_shapes:
  "\<not> frame_empty future_history" "5 \<le> length (columns future_history)"
  "\<not> frame_empty future_gap_history" "5 \<le> length (columns future_gap_history)"
  "\<not> frame_empty fine_history" "5 \<le> length (columns fine_history)"
  "\<not> frame_empty old_fine_history" "5 \<le> length (columns old_fine_history)"
  by (simp_all add: future_history_def future_gap_history_def fine_history_def
      old_fine_history_def frame_empty_def cninfo_columns_def)

text \<open>
  C1 (as stated): the amount of market A is the sum of column 4 divided by 10 over exactly
  the rows whose announcement date lies within the trailing 365 days from now. The program
  also counts a row announced after now: for 7 per 10 shares announced one day after the
  query, 5 announced 200 days before it and 3 announced 400 days before it, the sum over
  the trailing window rounds to 0.5, and the program returns 1.2.
\<close>

theorem get_a_dividend_counts_future_row:
  "round6 (trailing_sum 1730678400 (rows future_history)) = 1 / 2
   \<and> fst (get_a_dividend (world_of_history 1730678400 future_history) [54, 48, 48])
       = Some (6 / 5)"
proof -
  have window: "trailing_sum 1730678400 (rows future_history) = 1 / 2"
    by (simp add: trailing_sum_def in_trailing_window_def future_history_def column4_def)
  have since: "since_sum 1730678400 (rows future_history) = 6 / 5"
    by (simp add: since_sum_def announced_since_def future_history_def column4_def)
  have pos: "0 < since_sum 1730678400 (rows future_history)"
    by (simp add: since)
  have amount: "fst (get_a_dividend (world_of_history 1730678400 future_history) [54, 48, 48])
      = Some (round6 (since_sum 1730678400 (rows future_history)))"
    using get_a_dividend_since
      [of "world_of_history 1730678400 future_history" "[54, 48, 48]" future_history] pos
    by (simp add: world_of_history_fields history_shapes)
  show ?thesis
    unfolding window amount since round6_simple by simp
qed

text \<open>
  C1 (amended): for market A the amount is the sum of column 4 divided by 10 (a
  non-numeric amount counting as 0) over exactly the rows whose announcement date is not
  earlier than 365 days before now, rows announced after now included, rounded to 6
  decimals, whenever that sum is positive. For a history with no announcement after now
  these are the rows within the trailing 365 days. For the history with 5 per 10 shares
  announced 200 days ago and 3 per 10 shares announced 400 days ago the amount is 0.5 and
  not 0.8, whatever the time of the query.
\<close>

theorem get_a_dividend_sum_since_a_year:
  "(stock_dividend_cninfo w sy = Returns df \<and> \<not> frame_empty df \<and> 5 \<le> length (columns df)
      \<and> 0 < since_sum (now w) (rows df)
      \<longrightarrow> fst (get_a_dividend w sy) = Some (round6 (since_sum (now w) (rows df))))
   \<and> (no_future_rows t rs \<longrightarrow> since_sum t rs = trailing_sum t rs)
   \<and> fst (get_a_dividend (world_of_history t (window_example t)) sy) = Some (1 / 2)
   \<and> fst (get_a_dividend (world_of_history t (window_example t)) sy) \<noteq> Some (4 / 5)"
  using get_a_dividend_since[of w sy df] since_sum_is_trailing_sum[of t rs]
    window_example_amount[of t sy]
  by simp

theorem get_a_dividend_sum_since_a_year_witness:
  "stock_dividend_cninfo (world_of_history 1730678400 fine_history) [54, 48, 48]
     = Returns fine_history
   \<and> \<not> frame_empty fine_history \<and> 5 \<le> length (columns fine_history)
   \<and> 0 < since_sum 1730678400 (rows fine_history)
   \<and> fst (get_a_dividend (world_of_history 1730678400 fine_history) [54, 48, 48])
       = Some (123457 / 1000000)
   \<and> no_future_rows 1730678400 (rows fine_history)
   \<and> trailing_sum 1730678400 (rows fine_history) = 12345678 / 100000000"
proof -
  have since: "since_sum 1730678400 (rows fine_history) = 12345678 / 100000000"
    by (simp add: since_sum_def announced_since_def fine_history_def column4_def)
  have pos: "0 < since_sum 1730678400 (rows fine_history)"
    by (simp add: since)
  have past: "no_future_rows 1730678400 (rows fine_history)"
    by (simp add: no_future_rows_def fine_history_def)
  have window: "since_sum 1730678400 (rows fine_history)
      = trailing_sum 1730678400 (rows fine_history)"
    using get_a_dividend_sum_since_a_year
      [where t = 1730678400 and rs = "rows fine_history"
         and w = "world_of_history 1730678400 fine_history" and sy = "[54, 48, 48]"
         and df = fine_history]
      past
    by blast
  have "fst (get_a_dividend (world_of_history 1730678400 fine_history) [54, 48, 48])
      = Some (round6 (since_sum 1730678400 (rows fine_history)))"
    using get_a_dividend_sum_since_a_year
      [where t = 1730678400 and rs = "rows fine_history"
         and w = "world_of_history 1730678400 fine_history" and sy = "[54, 48, 48]"
         and df = fine_history]
      pos
    by (simp add: world_of_history_fields history_shapes)
  then have amount: "fst (get_a_dividend (world_of_history 1730678400 fine_history) [54, 48, 48])
      = Some (123457 / 1000000)"
    unfolding since round6_fine .
  have sum: "trailing_sum 1730678400 (rows fine_history) = 12345678 / 100000000"
    using window since by simp
  show ?thesis
    using amount sum pos past
    by (simp add: world_of_history_fields history_shapes)
qed

lemma get_a_dividend_second_tier:
  assumes "stock_dividend_cninfo w sy = Returns df" and "\<not> frame_empty df"
    and "5 \<le> length (columns df)"
    and "filter (announced_since (now w)) (rows df) = [] \<or> since_sum (now w) (rows df) = 0"
  shows "fst (get_a_dividend w sy) =
     (if 0 < first_two_sum (rows df) then Some (round6 (first_two_sum (rows df) / 10)) else None)"
proof -
  have "recent_a (now w) (rows df) = [] \<or> sum_per10 (recent_a (now w) (rows df)) = 0"
    using assms(4) by (simp add: since_sum_code recent_a_since)
  then show ?thesis
  proof
    assume "recent_a (now w) (rows df) = []"
    then show ?thesis
      by (simp add: get_a_dividend_frame[OF assms(1-3)] first_two_sum_code)
  next
    assume "sum_per10 (recent_a (now w) (rows df)) = 0"
    then show ?thesis
      by (simp add: get_a_dividend_frame[OF assms(1-3)] first_two_sum_code)
  qed
qed

text \<open>
  C2 (as stated): whenever the trailing-365-day window is empty or its sum is 0, the
  amount of market A falls back to the first 2 rows. It does not when a row is announced
  after now: for 7 per 10 shares announced one day after the query and 4 and 2 announced
  400 and 800 days before it, the trailing window is empty and the first 2 rows give 1.1,
  and the program returns 0.7, the amount of the row announced after now.
\<close>

theorem get_a_dividend_future_row_blocks_fallback:
  "filter (in_trailing_window 1730678400) (rows future_gap_history) = []
   \<and> (if 0 < first_two_sum (rows future_gap_history)
       then Some (round6 (first_two_sum (rows future_gap_history) / 10)) else None)
       = Some (11 / 10)
   \<and> fst (get_a_dividend (world_of_history 1730678400 future_gap_history) [54, 48, 48])
       = Some (7 / 10)"
proof -
  have window: "filter (in_trailing_window 1730678400) (rows future_gap_history) = []"
    by (simp add: in_trailing_window_def future_gap_history_def)
  have two: "first_two_sum (rows future_gap_history) = 11"
    by (simp add: first_two_sum_def future_gap_history_def column4_def)
  have since: "since_sum 1730678400 (rows future_gap_history) = 7 / 10"
    by (simp add: since_sum_def announced_since_def future_gap_history_def column4_def)
  have pos: "0 < since_sum 1730678400 (rows future_gap_history)"
    by (simp add: since)
  have amount:
    "fst (get_a_dividend (world_of_history 1730678400 future_gap_history) [54, 48, 48])
      = Some (round6 (since_sum 1730678400 (rows future_gap_history)))"
    using get_a_dividend_since
      [of "world_of_history 1730678400 future_gap_history" "[54, 48, 48]" future_gap_history]
      pos
    by (simp add: world_of_history_fields history_shapes)
  show ?thesis
    unfolding window two amount since round6_simple by simp
qed

text \<open>
  C2 (amended): for market A, whenever no row is announced since 365 days before now
  (rows announced after now included), or the sum of column 4 over those rows is 0, the
  amount is decided by the first 2 rows of the history in provider order: their sum of
  column 4, divided by 10 and rounded to 6 decimals, whenever that sum is positive, and
  absent otherwise. For a history with no announcement after now those rows are the
  trailing-365-day window.
\<close>

theorem get_a_dividend_fallback:
  "(stock_dividend_cninfo w sy = Returns df \<and> \<not> frame_empty df \<and> 5 \<le> length (columns df)
      \<and> (filter (announced_since (now w)) (rows df) = [] \<or> since_sum (now w) (rows df) = 0)
      \<longrightarrow> fst (get_a_dividend w sy) =
          (if 0 < first_two_sum (rows df) then Some (round6 (first_two_sum (rows df) / 10))
           else None))
   \<and> (no_future_rows t rs
      \<longrightarrow> filter (announced_since t) rs = filter (in_trailing_window t) rs
          \<and> since_sum t rs = trailing_sum t rs)"
  using get_a_dividend_second_tier[of w sy df] since_is_window[of t rs]
    since_sum_is_trailing_sum[of t rs]
  by blast

theorem get_a_dividend_fallback_witness:
  "stock_dividend_cninfo (world_of_history 1730678400 old_fine_history) [54, 48, 48]
     = Returns old_fine_history
   \<and> \<not> frame_empty old_fine_history \<and> 5 \<le> length (columns old_fine_history)
   \<and> filter (announced_since 1730678400) (rows old_fine_history) = []
   \<and> 0 < first_two_sum (rows old_fine_history)
   \<and> fst (get_a_dividend (world_of_history 1730678400 old_fine_history) [54, 48, 48])
       = Some (323457 / 1000000)
   \<and> no_future_rows 1730678400 (rows old_fine_history)
   \<and> filter (in_trailing_window 1730678400) (rows old_fine_history) = []"
proof -
  have none: "filter (announced_since 1730678400) (rows old_fine_history) = []"
    by (simp add: announced_since_def old_fine_history_def)
  have two: "first_two_sum (rows old_fine_history) = 32345678 / 10000000"
    by (simp add: first_two_sum_def old_fine_history_def column4_def)
  have pos: "0 < first_two_sum (rows old_fine_history)"
    by (simp add: two)
  have past: "no_future_rows 1730678400 (rows old_fine_history)"
    by (simp add: no_future_rows_def old_fine_history_def)
  have "fst (get_a_dividend (world_of_history 1730678400 old_fine_history) [54, 48, 48])
      = Some (round6 (first_two_sum (rows old_fine_history) / 10))"
    using get_a_dividend_fallback
      [where w = "world_of_history 1730678400 old_fine_history" and sy = "[54, 48, 48]"
         and df = old_fine_history and t = 1730678400 and rs = "rows old_fine_history"]
      none pos
    by (simp add: world_of_history_fields history_shapes)
  then have amount:
    "fst (get_a_dividend (world_of_history 1730678400 old_fine_history) [54, 48, 48])
      = Some (323457 / 1000000)"
    unfolding two round6_fine .
  have "filter (in_trailing_window 1730678400) (rows old_fine_history) = []"
    using get_a_dividend_fallback
      [where w = "world_of_history 1730678400 old_fine_history" and sy = "[54, 48, 48]"
         and df = old_fine_history and t = 1730678400 and rs = "rows old_fine_history"]
      past none
    by simp
  then show ?thesis
    using amount pos past none
    by (simp add: world_of_history_fields history_shapes)
qed

lemma old_history_facts:
  "\<not> frame_empty old_history" "5 \<le> length (columns old_history)"
  "7 < length (columns old_history)" "columns old_history ! 7 \<noteq> []"
  by (simp_all add: old_history_def frame_empty_def cninfo_columns_def)

lemma no_cash_no_dates:
  assumes "\<forall>r\<in>set rs. amount r = 0"
  shows "recent_pay_stamps rs = []"
proof -
  have "filter (\<lambda>r. 0 < amount r) rs = []"
    using assms by (auto simp: filter_empty_conv)
  then show ?thesis
    by (simp add: recent_pay_stamps_def dropna_def tail_def map_filter_simps)
qed

lemma get_a_dividend_no_cash:
  assumes "stock_dividend_cninfo w sy = Returns df" and "\<not> frame_empty df"
    and "5 \<le> length (columns df)" and "\<forall>r\<in>set (rows df). column4 r = 0"
  shows "get_a_dividend w sy = (None, [], Some (Literal msg_zero_a))"
proof -
  have zero: "\<forall>r\<in>set (rows df). amount r = 0"
    using assms(4) by (simp add: column4_amount)
  have "\<forall>r\<in>set (recent_a (now w) (rows df)). amount r = 0"
    using zero by (simp add: recent_a_def)
  then have s1: "sum_per10 (recent_a (now w) (rows df)) = 0"
    by (rule sum_per10_zero)
  have "\<forall>r\<in>set (take 2 (rows df)). amount r = 0"
    using zero by (meson in_set_takeD)
  then have s2: "sum_per10 (take 2 (rows df)) = 0"
    by (rule sum_per10_zero)
  have "a_dates w df = []"
    by (simp add: a_dates_def no_cash_no_dates[OF zero] map_filter_simps)
  with s1 s2 show ?thesis
    by (simp add: get_a_dividend_frame[OF assms(1-3)])
qed

text \<open>
  C4: for market A, when every row of a non-empty history of at least 5 columns has
  amount 0 (a non-numeric amount counting as 0), the result is an absent amount, an empty
  list of dates and the error string whose code points are spelled out below.
\<close>

theorem get_a_dividend_all_zero:
  "stock_dividend_cninfo w sy = Returns df \<and> \<not> frame_empty df \<and> 5 \<le> length (columns df)
     \<and> (\<forall>r\<in>set (rows df). column4 r = 0)
   \<longrightarrow> get_a_dividend w sy =
       (None, [],
        Some (Literal [0x8FD1, 0x671F, 0x73B0, 0x91D1, 0x5206, 0x7EA2, 0x91D1, 0x989D,
                       0x4E3A, 0x20, 0x30]))"
  using get_a_dividend_no_cash[of w sy df] by (simp add: msg_zero_a_def)

theorem get_a_dividend_all_zero_witness:
  "stock_dividend_cninfo (world_of_history 1730678400 no_cash_history) [54, 48, 48]
     = Returns no_cash_history
   \<and> \<not> frame_empty no_cash_history \<and> 5 \<le> length (columns no_cash_history)
   \<and> list_all (\<lambda>r. column4 r = 0) (rows no_cash_history)
   \<and> get_a_dividend (world_of_history 1730678400 no_cash_history) [54, 48, 48] =
       (None, [],
        Some (Literal [0x8FD1, 0x671F, 0x73B0, 0x91D1, 0x5206, 0x7EA2, 0x91D1, 0x989D,
                       0x4E3A, 0x20, 0x30]))"
proof -
  have a: "\<not> frame_empty no_cash_history" "5 \<le> length (columns no_cash_history)"
    "\<forall>r\<in>set (rows no_cash_history). column4 r = 0"
    by (simp_all add: no_cash_history_def frame_empty_def cninfo_columns_def column4_def)
  show ?thesis
    using get_a_dividend_all_zero[of "world_of_history 1730678400 no_cash_history"
        "[54, 48, 48]" no_cash_history] a
    by (simp add: world_of_history_fields list_all_iff)
qed

lemma get_a_dividend_dates:
  assumes "stock_dividend_cninfo w sy = Returns df" and "\<not> frame_empty df"
    and "5 \<le> length (columns df)"
  shows "fst (snd (get_a_dividend w sy)) = a_dates w df"
  by (simp add: get_a_dividend_frame[OF assms])

lemma ymd_examples:
  "ymd 1686787200 = Some [50, 48, 50, 51, 45, 48, 54, 45, 49, 53]"
  "ymd 1655337600 = Some [50, 48, 50, 50, 45, 48, 54, 45, 49, 54]"
  "ymd 951782400 = Some [50, 48, 48, 48, 45, 48, 50, 45, 50, 57]"
  by code_simp+

lemma old_history_stamps: "cash_pay_stamps (rows old_history) = [1686787200, 1655337600, 951782400]"
  by (simp add: cash_pay_stamps_def old_history_def column4_def map_filter_simps)

text \<open>
  C8: the recent dates of market A are meant to be the most recent two payment dates, the
  most recent first; the function's documentation says so. The function takes the last 2
  payment dates in row order and reverses them, and sorts nothing. For a history listed
  newest first, the order its own fallback to the first 2 rows relies on, it reports the
  two oldest payments: of payments on 2023-06-15, 2022-06-16 and 2000-02-29, listed in
  that order, it returns 2000-02-29 and then 2022-06-16, where the last two
  chronologically, most recent first, are 2023-06-15 and 2022-06-16.
\<close>

theorem get_a_dividend_dates_descending_history:
  "fst (snd (get_a_dividend (world_of_history 1730678400 old_history) [54, 48, 48])) =
     [[50, 48, 48, 48, 45, 48, 50, 45, 50, 57], [50, 48, 50, 50, 45, 48, 54, 45, 49, 54]]
   \<and> List.map_filter ymd (chronological_last_two (cash_pay_stamps (rows old_history))) =
     [[50, 48, 50, 51, 45, 48, 54, 45, 49, 53], [50, 48, 50, 50, 45, 48, 54, 45, 49, 54]]"
proof -
  have "fst (snd (get_a_dividend (world_of_history 1730678400 old_history) [54, 48, 48])) =
        a_dates (world_of_history 1730678400 old_history) old_history"
    by (rule get_a_dividend_dates) (simp_all add: world_of_history_fields old_history_facts)
  moreover have "recent_pay_stamps (rows old_history) = [951782400, 1655337600]"
    using old_history_stamps
    by (simp add: recent_pay_stamps_def cash_pay_stamps_code[symmetric] tail_def)
  ultimately show ?thesis
    by (simp add: a_dates_def old_history_facts world_of_history_fields map_filter_simps
        ymd_examples old_history_stamps chronological_last_two_def)
qed


section \<open>Exchange rate\<close>

lemma first_plausible_candidates:
  "first_plausible vs =
     (case filter plausible (dropna vs) of [] \<Rightarrow> None | r # _ \<Rightarrow> Some (round6 r))"
  by (induction vs)
     (simp_all add: dropna_def map_filter_simps plausible_def split: option.splits)

lemma scan_spot_candidates:
  "scan_spot df = (case spot_candidates df of [] \<Rightarrow> None | r # _ \<Rightarrow> Some (round6 r))"
proof (induction df)
  case Nil
  then show ?case by (simp add: spot_candidates_def)
next
  case (Cons row rest)
  have unfold: "spot_candidates (row # rest) =
      (if mentions_hkd row then filter plausible (dropna (cell_floats row)) else [])
      @ spot_candidates rest"
    by (simp add: spot_candidates_def)
  show ?case
    using Cons.IH
    by (simp add: unfold first_plausible_candidates split: list.splits)
qed

lemma scan_boc_candidates:
  "scan_boc df =
     (case bank_candidates df of [] \<Rightarrow> None | val # _ \<Rightarrow> Some (round6 (val / 100)))"
  by (induction df)
     (simp_all add: bank_candidates_def bank_values_def dropna_def map_filter_simps
        split: option.splits)

lemma get_hkd_cny_rate_candidates:
  "get_hkd_cny_rate w =
     (case spot_candidates (spot_rows w) of
        r # _ \<Rightarrow> round6 r
      | [] \<Rightarrow>
          (case bank_candidates (bank_columns w) of
             val # _ \<Rightarrow> round6 (val / 100)
           | [] \<Rightarrow> 924 / 1000))"
proof -
  have spot: "(case fx_spot_quote w of Returns df \<Rightarrow> scan_spot df | _ \<Rightarrow> None) =
      scan_spot (spot_rows w)"
    by (simp add: spot_rows_def split: reply.splits)
  have bank: "(case currency_boc_sina w of Returns df \<Rightarrow> scan_boc df | _ \<Rightarrow> None) =
      scan_boc (bank_columns w)"
    by (simp add: bank_columns_def split: reply.splits)
  show ?thesis
    unfolding get_hkd_cny_rate_def spot bank
    by (simp add: scan_spot_candidates scan_boc_candidates default_rate_def split: list.splits)
qed

lemma get_hkd_cny_rate_both_raise:
  assumes "fx_spot_quote w = Raises e1" and "currency_boc_sina w = Raises e2"
  shows "get_hkd_cny_rate w = 924 / 1000"
  using assms by (simp add: get_hkd_cny_rate_def default_rate_def)

text \<open>
  C6 (as stated): failing a spot value, the rate is the bank's latest mid-rate or
  benchmark value, divided by 100 if it exceeds 10, rounded. It is not when that value
  does not exceed 10: with no spot quotes and a bank mid-rate of 0.92 the program returns
  0.924, where the claim gives 0.92.
\<close>

theorem get_hkd_cny_rate_skips_per_unit_bank_value:
  "get_hkd_cny_rate per_unit_bank_world = 924 / 1000
   \<and> claimed_rate per_unit_bank_world = 92 / 100"
  by code_simp

text \<open>
  C6 (amended): the rate lookup always returns a number. It is the first value within
  [0.5, 1.5] among the values of the spot rows that mention the currency, rounded to 6
  decimals; failing that, the latest value of the first mid-rate or benchmark column of
  the bank table whose latest value exceeds 10, divided by 100 and rounded to 6 decimals
  (a latest value of at most 10 is passed over); failing that, 0.924. A source that
  raises, returns nothing or returns an empty table has no candidates, and when both
  sources raise the rate is exactly 0.924.
\<close>

theorem get_hkd_cny_rate_three_tiers:
  "get_hkd_cny_rate w =
     (case spot_candidates (spot_rows w) of
        r # _ \<Rightarrow> round6 r
      | [] \<Rightarrow>
          (case bank_candidates (bank_columns w) of
             val # _ \<Rightarrow> round6 (val / 100)
           | [] \<Rightarrow> 924 / 1000))
   \<and> (fx_spot_quote w = Raises e1 \<and> currency_boc_sina w = Raises e2
        \<longrightarrow> get_hkd_cny_rate w = 924 / 1000)"
  using get_hkd_cny_rate_candidates[of w] get_hkd_cny_rate_both_raise[of w e1 e2]
  by blast

theorem get_hkd_cny_rate_three_tiers_witness:
  "get_hkd_cny_rate spot_world = 923457 / 1000000
   \<and> get_hkd_cny_rate per_hundred_bank_world = 9231 / 10000
   \<and> fx_spot_quote offline_world = Raises [] \<and> currency_boc_sina offline_world = Raises []
   \<and> get_hkd_cny_rate offline_world = 924 / 1000"
proof -
  have a: "(case spot_candidates (spot_rows spot_world) of
              r # _ \<Rightarrow> round6 r
            | [] \<Rightarrow>
                (case bank_candidates (bank_columns spot_world) of
                   val # _ \<Rightarrow> round6 (val / 100)
                 | [] \<Rightarrow> 924 / 1000)) = 923457 / 1000000"
    by code_simp
  have b: "(case spot_candidates (spot_rows per_hundred_bank_world) of
              r # _ \<Rightarrow> round6 r
            | [] \<Rightarrow>
                (case bank_candidates (bank_columns per_hundred_bank_world) of
                   val # _ \<Rightarrow> round6 (val / 100)
                 | [] \<Rightarrow> 924 / 1000)) = 9231 / 10000"
    by code_simp
  have c: "fx_spot_quote offline_world = Raises []" "currency_boc_sina offline_world = Raises []"
    by (simp_all add: offline_world_def)
  have "get_hkd_cny_rate spot_world = 923457 / 1000000"
    using get_hkd_cny_rate_three_tiers[of spot_world "[]" "[]"] unfolding a by (rule conjunct1)
  moreover have "get_hkd_cny_rate per_hundred_bank_world = 9231 / 10000"
    using get_hkd_cny_rate_three_tiers[of per_hundred_bank_world "[]" "[]"] unfolding b
    by (rule conjunct1)
  moreover have "get_hkd_cny_rate offline_world = 924 / 1000"
    using get_hkd_cny_rate_three_tiers[of offline_world "[]" "[]"] c by blast
  ultimately show ?thesis
    using c by blast
qed


section \<open>Symbol caches\<close>

lemma load_a_cache_fresh:
  assumes "art = Some f" and "now w - mtime f < 24 * 3600"
  shows "load_a_cache w art = (Inr (payload f), art, [])"
  using assms by (simp add: load_a_cache_def CACHE_TTL_def)

lemma load_hk_cache_fresh:
  assumes "art = Some f" and "now w - mtime f < 24 * 3600"
  shows "load_hk_cache w art = (payload f, art, [])"
  using assms by (simp add: load_hk_cache_def CACHE_TTL_def Let_def)

lemma load_a_cache_expired:
  assumes "art = None \<or> (art = Some f \<and> 24 * 3600 \<le> now w - mtime f)"
  shows "load_a_cache w art = refetch_a w art"
  using assms by (auto simp: load_a_cache_def CACHE_TTL_def)

lemma load_hk_cache_expired:
  assumes "art = None \<or> (art = Some f \<and> 24 * 3600 \<le> now w - mtime f)"
  shows "load_hk_cache w art =
     (case refetch_hk w [Stock_hk_spot_em, Stock_hk_main_board_spot_em] of
        (Some sub, called) \<Rightarrow> (sub, Some \<lparr>mtime = now w, payload = sub\<rparr>, called)
      | (None, called) \<Rightarrow> ([], art, called))"
  using assms by (auto simp: load_hk_cache_def CACHE_TTL_def Let_def)

lemma refetch_a_calls: "snd (snd (refetch_a w art)) = [Stock_zh_a_spot_em]"
  by (simp add: refetch_a_def split: reply.splits)

lemma refetch_a_success:
  assumes "stock_zh_a_spot_em w = Returns df"
    and "code_col \<in> set (columns df)" and "name_col \<in> set (columns df)"
  shows "refetch_a w art =
     (Inr (rows df), Some \<lparr>mtime = now w, payload = rows df\<rparr>, [Stock_zh_a_spot_em])"
  using assms by (simp add: refetch_a_def)

lemma refetch_a_failure:
  assumes "\<not> (\<exists>df. stock_zh_a_spot_em w = Returns df
              \<and> code_col \<in> set (columns df) \<and> name_col \<in> set (columns df))"
  shows "\<exists>e. refetch_a w art = (Inl e, art, [Stock_zh_a_spot_em])"
  using assms by (auto simp: refetch_a_def split: reply.splits)

lemma refetch_hk_primary:
  assumes "usable_snapshot (stock_hk_spot_em w) = Some es"
  shows "refetch_hk w [Stock_hk_spot_em, Stock_hk_main_board_spot_em] = (Some es, [Stock_hk_spot_em])"
  using assms by (simp add: call_spot_def)

lemma refetch_hk_alternate:
  assumes "usable_snapshot (stock_hk_spot_em w) = None"
  shows "refetch_hk w [Stock_hk_spot_em, Stock_hk_main_board_spot_em] =
     (usable_snapshot (stock_hk_main_board_spot_em w),
      [Stock_hk_spot_em, Stock_hk_main_board_spot_em])"
  using assms by (simp add: call_spot_def split: option.splits)

lemma cache_expired_a:
  assumes "art = None \<or> (art = Some f \<and> 24 * 3600 \<le> now w - mtime f)"
  shows "snd (snd (load_a_cache w art)) = [Stock_zh_a_spot_em]
     \<and> (stock_zh_a_spot_em w = Returns df
          \<and> code_col \<in> set (columns df) \<and> name_col \<in> set (columns df)
        \<longrightarrow> load_a_cache w art =
            (Inr (rows df), Some \<lparr>mtime = now w, payload = rows df\<rparr>, [Stock_zh_a_spot_em]))
     \<and> (\<not> (\<exists>t. stock_zh_a_spot_em w = Returns t
               \<and> code_col \<in> set (columns t) \<and> name_col \<in> set (columns t))
        \<longrightarrow> (\<exists>e. load_a_cache w art = (Inl e, art, [Stock_zh_a_spot_em])))"
  unfolding load_a_cache_expired[OF assms]
  using refetch_a_calls[where w = w and art = art]
    refetch_a_success[where w = w and df = df and art = art]
    refetch_a_failure[where w = w and art = art]
  by blast

lemma cache_expired_hk:
  assumes "art = None \<or> (art = Some f \<and> 24 * 3600 \<le> now w - mtime f)"
  shows "(usable_snapshot (stock_hk_spot_em w) = Some es
        \<longrightarrow> load_hk_cache w art =
            (es, Some \<lparr>mtime = now w, payload = es\<rparr>, [Stock_hk_spot_em]))
     \<and> (usable_snapshot (stock_hk_spot_em w) = None
          \<and> usable_snapshot (stock_hk_main_board_spot_em w) = Some es
        \<longrightarrow> load_hk_cache w art =
            (es, Some \<lparr>mtime = now w, payload = es\<rparr>,
             [Stock_hk_spot_em, Stock_hk_main_board_spot_em]))
     \<and> (usable_snapshot (stock_hk_spot_em w) = None
          \<and> usable_snapshot (stock_hk_main_board_spot_em w) = None
        \<longrightarrow> load_hk_cache w art =
            ([], art, [Stock_hk_spot_em, Stock_hk_main_board_spot_em]))"
  unfolding load_hk_cache_expired[OF assms]
  by (auto simp: refetch_hk_primary refetch_hk_alternate simp del: refetch_hk.simps)

lemma snapshot_world_fields:
  "now snapshot_world = 1730678400"
  "stock_zh_a_spot_em snapshot_world = Returns a_table"
  "stock_hk_spot_em snapshot_world = Raises []"
  "stock_hk_main_board_spot_em snapshot_world = Returns hk_table"
  by (simp_all add: snapshot_world_def offline_world_def)

lemma example_tables:
  "code_col \<in> set (columns a_table)" "name_col \<in> set (columns a_table)"
  "usable_snapshot (Raises []) = None"
  "usable_snapshot (Returns hk_table) = Some (rows hk_table)"
  by (simp_all add: a_table_def hk_table_def usable_snapshot_def frame_empty_def)

lemma offline_snapshots:
  "now offline_world = 1730678400"
  "stock_zh_a_spot_em offline_world = Raises []"
  "stock_hk_spot_em offline_world = Raises []"
  "stock_hk_main_board_spot_em offline_world = Raises []"
  by (simp_all add: offline_world_def)

text \<open>
  C7 (as stated): an artifact of 24 hours or more, or a missing one, triggers exactly one
  upstream refetch, whose result is persisted and returned. With an artifact written 25
  hours ago this fails in two ways. For market HK, when the primary snapshot function
  raises, the loader calls the primary and then the alternate function: two upstream
  calls. And when every snapshot function raises, nothing is persisted: the market-HK
  loader returns the empty universe and the market-A loader raises, both leaving the
  artifact as it was.
\<close>

theorem stale_cache_refetch_outcomes:
  "now snapshot_world - mtime file_25h = 25 * 3600
   \<and> load_hk_cache snapshot_world (Some file_25h) =
       (rows hk_table, Some \<lparr>mtime = 1730678400, payload = rows hk_table\<rparr>,
        [Stock_hk_spot_em, Stock_hk_main_board_spot_em])
   \<and> now offline_world - mtime file_25h = 25 * 3600
   \<and> load_hk_cache offline_world (Some file_25h) =
       ([], Some file_25h, [Stock_hk_spot_em, Stock_hk_main_board_spot_em])
   \<and> load_a_cache offline_world (Some file_25h) =
       (Inl (Upstream []), Some file_25h, [Stock_zh_a_spot_em])"
  by (simp add: load_hk_cache_def load_a_cache_def refetch_a_def CACHE_TTL_def Let_def
      snapshot_world_fields offline_snapshots file_25h_def call_spot_def example_tables)

text \<open>
  C7 (amended): both loaders treat the artifact as valid iff it exists and now minus its
  modification time is strictly less than 24 hours; a valid artifact is returned as stored
  with no upstream call and is left as it is. Otherwise the market-A loader makes exactly
  one upstream call: a table with the code and name columns is projected, persisted with
  the current time and returned, anything else raises and leaves the artifact as it was.
  The market-HK loader calls the primary snapshot function and, only when that gives no
  usable table, the alternate one: the first usable table is persisted and returned, and
  when neither gives one the loader returns the empty universe and persists nothing.
\<close>

theorem cache_valid_under_24h_else_refetch:
  "(art = Some f \<and> now w - mtime f < 24 * 3600
      \<longrightarrow> load_a_cache w art = (Inr (payload f), art, [])
          \<and> load_hk_cache w art = (payload f, art, []))
   \<and> (art = None \<or> (art = Some f \<and> 24 * 3600 \<le> now w - mtime f)
      \<longrightarrow> snd (snd (load_a_cache w art)) = [Stock_zh_a_spot_em]
          \<and> (stock_zh_a_spot_em w = Returns df
               \<and> code_col \<in> set (columns df) \<and> name_col \<in> set (columns df)
             \<longrightarrow> load_a_cache w art =
                 (Inr (rows df), Some \<lparr>mtime = now w, payload = rows df\<rparr>,
                  [Stock_zh_a_spot_em]))
          \<and> (\<not> (\<exists>t. stock_zh_a_spot_em w = Returns t
                    \<and> code_col \<in> set (columns t) \<and> name_col \<in> set (columns t))
             \<longrightarrow> (\<exists>e. load_a_cache w art = (Inl e, art, [Stock_zh_a_spot_em])))
          \<and> (usable_snapshot (stock_hk_spot_em w) = Some es
             \<longrightarrow> load_hk_cache w art =
                 (es, Some \<lparr>mtime = now w, payload = es\<rparr>, [Stock_hk_spot_em]))
          \<and> (usable_snapshot (stock_hk_spot_em w) = None
               \<and> usable_snapshot (stock_hk_main_board_spot_em w) = Some es
             \<longrightarrow> load_hk_cache w art =
                 (es, Some \<lparr>mtime = now w, payload = es\<rparr>,
                  [Stock_hk_spot_em, Stock_hk_main_board_spot_em]))
          \<and> (usable_snapshot (stock_hk_spot_em w) = None
               \<and> usable_snapshot (stock_hk_main_board_spot_em w) = None
             \<longrightarrow> load_hk_cache w art =
                 ([], art, [Stock_hk_spot_em, Stock_hk_main_board_spot_em])))"
  using load_a_cache_fresh[where art = art and f = f and w = w]
    load_hk_cache_fresh[where art = art and f = f and w = w]
    cache_expired_a[where art = art and f = f and w = w and df = df]
    cache_expired_hk[where art = art and f = f and w = w and es = es]
  by blast

theorem cache_valid_under_24h_else_refetch_witness:
  "now snapshot_world - mtime file_23h < 24 * 3600
   \<and> load_a_cache snapshot_world (Some file_23h) = (Inr old_payload, Some file_23h, [])
   \<and> load_hk_cache snapshot_world (Some file_23h) = (old_payload, Some file_23h, [])
   \<and> 24 * 3600 \<le> now snapshot_world - mtime file_25h
   \<and> stock_zh_a_spot_em snapshot_world = Returns a_table
   \<and> code_col \<in> set (columns a_table) \<and> name_col \<in> set (columns a_table)
   \<and> load_a_cache snapshot_world (Some file_25h) =
       (Inr (rows a_table), Some \<lparr>mtime = 1730678400, payload = rows a_table\<rparr>,
        [Stock_zh_a_spot_em])
   \<and> usable_snapshot (stock_hk_spot_em snapshot_world) = None
   \<and> usable_snapshot (stock_hk_main_board_spot_em snapshot_world) = Some (rows hk_table)
   \<and> load_hk_cache snapshot_world None =
       (rows hk_table, Some \<lparr>mtime = 1730678400, payload = rows hk_table\<rparr>,
        [Stock_hk_spot_em, Stock_hk_main_board_spot_em])"
proof -
  have fresh: "now snapshot_world - mtime file_23h < 24 * 3600"
    and stale: "24 * 3600 \<le> now snapshot_world - mtime file_25h"
    and stored: "payload file_23h = old_payload"
    by (simp_all add: snapshot_world_fields file_23h_def file_25h_def)
  show ?thesis
    using cache_valid_under_24h_else_refetch
        [where art = "Some file_23h" and f = file_23h and w = snapshot_world
           and df = a_table and es = "rows hk_table"]
      cache_valid_under_24h_else_refetch
        [where art = "Some file_25h" and f = file_25h and w = snapshot_world
           and df = a_table and es = "rows hk_table"]
      cache_valid_under_24h_else_refetch
        [where art = None and f = file_25h and w = snapshot_world
           and df = a_table and es = "rows hk_table"]
      fresh stale stored
    by (simp add: snapshot_world_fields example_tables)
qed


section \<open>Symbol search\<close>

lemma find_filter_head:
  "find P xs = (case filter P xs of [] \<Rightarrow> None | x # _ \<Rightarrow> Some x)"
  by (induction xs) simp_all

lemma search_hk_stock_by_name:
  assumes "\<not> isdigit q"
  shows "fst (search_hk_stock w art q) =
     map_option (\<lambda>m. get_hk_stock_by_code w (code m))
       (find (\<lambda>e. sublist q (short_name e)) (fst (load_hk_cache w art)))"
  using assms
  by (cases "load_hk_cache w art")
     (simp add: search_hk_stock_def matched_hk_def find_filter_head split: list.splits)

lemma search_hk_stock_by_code:
  assumes "isdigit q"
  shows "fst (search_hk_stock w art q) = Some (get_hk_stock_by_code w q)"
  using assms by (simp add: search_hk_stock_def)

lemma get_hk_stock_by_code_symbol: "symbol (get_hk_stock_by_code w c) = zfill 5 c"
  by (simp add: get_hk_stock_by_code_def Let_def)

text \<open>No code of digits equals a query that is not one, so on provider codes both rules agree.\<close>

lemma rules_agree_on_provider_codes:
  assumes "\<not> isdigit q" and "provider_codes universe"
  shows "filter (\<lambda>e. sublist q (short_name e)) universe = filter (rule_a q) universe"
    and "find (\<lambda>e. sublist q (short_name e)) universe = find (rule_a q) universe"
proof -
  have agree: "sublist q (short_name e) = rule_a q e" if "e \<in> set universe" for e
  proof -
    have "isdigit (code e)"
      using assms(2) that by (simp add: provider_codes_def list_all_iff)
    with assms(1) have "code e \<noteq> q" by auto
    then show ?thesis by (simp add: rule_a_def)
  qed
  show first: "filter (\<lambda>e. sublist q (short_name e)) universe = filter (rule_a q) universe"
    by (rule filter_cong) (simp_all add: agree)
  show "find (\<lambda>e. sublist q (short_name e)) universe = find (rule_a q) universe"
    by (simp add: find_filter_head first)
qed

lemma get_a_stock_by_code_symbol:
  assumes "get_a_stock_by_code w c = Inr info"
  shows "info = \<lparr>symbol = c, name = name info, current_price = current_price info\<rparr>"
  using assms by (auto simp: get_a_stock_by_code_def split: reply.splits if_splits)

lemma name_search_a_result:
  assumes "fst (load_a_cache w art) = Inr universe"
  shows "fst (name_search_a w art q) = map_option (a_result w) (find (rule_a q) universe)"
proof -
  obtain art' called where cache: "load_a_cache w art = (Inr universe, art', called)"
    using assms by (cases "load_a_cache w art") auto
  have rule: "matched_a universe q = filter (rule_a q) universe"
    unfolding matched_a_def by (rule filter_cong) (simp_all add: rule_a_def)
  show ?thesis
  proof (cases "filter (rule_a q) universe")
    case Nil
    then show ?thesis
      by (simp add: name_search_a_def cache rule find_filter_head)
  next
    case (Cons m rest)
    show ?thesis
    proof (cases "get_a_stock_by_code w (code m)")
      case (Inl e)
      then show ?thesis
        by (simp add: name_search_a_def cache rule Cons find_filter_head a_result_def)
    next
      case (Inr info)
      then have "info\<lparr>name := short_name m\<rparr> =
          \<lparr>symbol = code m, name = short_name m, current_price = current_price info\<rparr>"
        using get_a_stock_by_code_symbol[OF Inr] by (cases info) simp
      with Inr show ?thesis
        by (simp add: name_search_a_def cache rule Cons find_filter_head a_result_def)
    qed
  qed
qed

lemma search_a_stock_cached:
  assumes "\<not> isdigit q \<or> (\<exists>e. get_a_stock_by_code w q = Inl e)"
    and "fst (load_a_cache w art) = Inr universe"
  shows "fst (search_a_stock w art q) = map_option (a_result w) (find (rule_a q) universe)"
  using assms(1) name_search_a_result[OF assms(2), of q]
  by (auto simp: search_a_stock_def)

lemma one_hk_world_fields:
  "now profile_down_world = 1730678400"
  "stock_hk_spot_em profile_down_world = Returns one_hk_table"
  "stock_hk_security_profile_em profile_down_world c = Raises []"
  "stock_hk_daily profile_down_world c = Raises []"
  "stock_hk_hist profile_down_world c = Raises []"
  "now profile_up_world = 1730678400"
  "stock_hk_spot_em profile_up_world = Returns one_hk_table"
  "stock_hk_security_profile_em profile_up_world c = Returns [[0x9A30, 0x8A0A, 0x63A7, 0x80A1]]"
  "stock_hk_daily profile_up_world c = Raises []"
  "stock_hk_hist profile_up_world c = Raises []"
  by (simp_all add: profile_down_world_def profile_up_world_def offline_world_def)

lemma one_hk_table_facts:
  "usable_snapshot (Returns one_hk_table) = Some (rows one_hk_table)"
  "find (\<lambda>e. sublist [0x817E, 0x8BAF] (short_name e)) (rows one_hk_table)
     = Some \<lparr>code = [48, 48, 55, 48, 48], short_name = [0x817E, 0x8BAF, 0x63A7, 0x80A1]\<rparr>"
  "find (rule_a [0x817E, 0x8BAF]) (rows one_hk_table)
     = Some \<lparr>code = [48, 48, 55, 48, 48], short_name = [0x817E, 0x8BAF, 0x63A7, 0x80A1]\<rparr>"
  by (simp_all add: one_hk_table_def usable_snapshot_def frame_empty_def rule_a_def sublist_code)

lemma zfill_examples:
  "zfill 5 [48, 48, 55, 48, 48] = [48, 48, 55, 48, 48]"
  "zfill 5 [48, 48, 48, 48, 53] = [48, 48, 48, 48, 53]"
  "zfill 5 [55, 48, 48] = [48, 48, 55, 48, 48]"
  by (simp_all add: zfill_def numeral_eq_Suc)

lemma name_query_not_digits:
  "\<not> isdigit [0x817E, 0x8BAF]" "\<not> isdigit [0x6C47, 0x4E30]" "isdigit [48, 48, 48, 48, 53]"
  "isdigit [48, 48, 55, 48, 48]" "isdigit [48, 50, 51, 56, 56]" "isdigit [0xFF17, 0xFF10, 0xFF10]"
  by (simp_all add: isdigit_facts)

text \<open>
  C9 (as stated): the cached name search of market HK differs from that of market A only
  in the zero-padding of codes and in the internal fallbacks of the direct lookup. It
  differs in the name of the result too: market A puts the cached name over the name the
  direct lookup returned, market HK returns the direct lookup's name. For the cached row
  of code 00700 and a query contained in its name, the search of market HK returns the
  padded code as name when the security profile raises, and the profile's name in
  traditional script when the profile answers; with the shape of market A the name would
  be the cached one both times.
\<close>

theorem search_hk_stock_keeps_lookup_name:
  "fst (search_hk_stock profile_down_world None [0x817E, 0x8BAF]) =
     Some \<lparr>symbol = [48, 48, 55, 48, 48], name = [48, 48, 55, 48, 48], current_price = None\<rparr>
   \<and> map_option (claimed_hk_result profile_down_world)
       (find (rule_a [0x817E, 0x8BAF]) (rows one_hk_table)) =
     Some \<lparr>symbol = [48, 48, 55, 48, 48], name = [0x817E, 0x8BAF, 0x63A7, 0x80A1],
            current_price = None\<rparr>
   \<and> fst (search_hk_stock profile_up_world None [0x817E, 0x8BAF]) =
     Some \<lparr>symbol = [48, 48, 55, 48, 48], name = [0x9A30, 0x8A0A, 0x63A7, 0x80A1],
            current_price = None\<rparr>
   \<and> map_option (claimed_hk_result profile_up_world)
       (find (rule_a [0x817E, 0x8BAF]) (rows one_hk_table)) =
     Some \<lparr>symbol = [48, 48, 55, 48, 48], name = [0x817E, 0x8BAF, 0x63A7, 0x80A1],
            current_price = None\<rparr>"
proof -
  have down: "fst (load_hk_cache profile_down_world None) = rows one_hk_table"
    and up: "fst (load_hk_cache profile_up_world None) = rows one_hk_table"
    by (simp_all add: load_hk_cache_def Let_def call_spot_def one_hk_world_fields
        one_hk_table_facts)
  have lookup_down: "get_hk_stock_by_code profile_down_world [48, 48, 55, 48, 48] =
      \<lparr>symbol = [48, 48, 55, 48, 48], name = [48, 48, 55, 48, 48], current_price = None\<rparr>"
    and lookup_up: "get_hk_stock_by_code profile_up_world [48, 48, 55, 48, 48] =
      \<lparr>symbol = [48, 48, 55, 48, 48], name = [0x9A30, 0x8A0A, 0x63A7, 0x80A1],
        current_price = None\<rparr>"
    by (simp_all add: get_hk_stock_by_code_def Let_def zfill_examples one_hk_world_fields)
  show ?thesis
    by (simp add: search_hk_stock_by_name[OF name_query_not_digits(1)] down up
        one_hk_table_facts lookup_down lookup_up claimed_hk_result_def)
qed

text \<open>
  C9 (amended): for market HK the cached name search, which only a query that is not all
  digits reaches, takes the first row in cache order whose name contains the query as a
  case-sensitive substring. On a snapshot with provider codes (every code a string of
  digits) these are exactly the rows market A's rule selects, code equal to the query or
  name containing it, first match in cache order winning, since no such code equals the
  query. The search differs from market A's in the zero-padding of codes to 5 characters,
  in the internal fallbacks of the direct lookup, and in the name of the result, which is
  the direct lookup's and not the cached one. A query of digits, of any script, goes to
  the direct lookup at once on market HK; on market A it reaches the cache when its direct
  lookup raises, and whatever reaches the cache is resolved by market A's rule with the
  cached name.
\<close>

theorem search_hk_stock_matches_by_name_only:
  "(\<not> isdigit q
      \<longrightarrow> fst (search_hk_stock w art q) =
          map_option (\<lambda>m. get_hk_stock_by_code w (code m))
            (find (\<lambda>e. sublist q (short_name e)) (fst (load_hk_cache w art))))
   \<and> (\<not> isdigit q \<and> provider_codes (fst (load_hk_cache w art))
      \<longrightarrow> filter (\<lambda>e. sublist q (short_name e)) (fst (load_hk_cache w art))
            = filter (rule_a q) (fst (load_hk_cache w art))
          \<and> fst (search_hk_stock w art q) =
              map_option (\<lambda>m. get_hk_stock_by_code w (code m))
                (find (rule_a q) (fst (load_hk_cache w art))))
   \<and> (isdigit q \<longrightarrow> fst (search_hk_stock w art q) = Some (get_hk_stock_by_code w q))
   \<and> symbol (get_hk_stock_by_code w c) = zfill 5 c
   \<and> ((\<not> isdigit q \<or> (\<exists>e. get_a_stock_by_code w q = Inl e))
        \<and> fst (load_a_cache w art) = Inr universe
      \<longrightarrow> fst (search_a_stock w art q) = map_option (a_result w) (find (rule_a q) universe))"
  using search_hk_stock_by_name[where q = q and w = w and art = art]
    rules_agree_on_provider_codes[where q = q and universe = "fst (load_hk_cache w art)"]
    search_hk_stock_by_code[where q = q and w = w and art = art]
    get_hk_stock_by_code_symbol[where w = w and c = c]
    search_a_stock_cached[where q = q and w = w and art = art and universe = universe]
  by auto

theorem search_hk_stock_matches_by_name_only_witness:
  "\<not> isdigit [0x6C47, 0x4E30]
   \<and> provider_codes (fst (load_hk_cache two_hk_world None))
   \<and> fst (search_hk_stock two_hk_world None [0x6C47, 0x4E30])
       = Some \<lparr>symbol = [48, 48, 48, 48, 53], name = [48, 48, 48, 48, 53],
               current_price = Some 65\<rparr>
   \<and> isdigit [0xFF17, 0xFF10, 0xFF10]
   \<and> fst (search_hk_stock two_hk_world None [0xFF17, 0xFF10, 0xFF10])
       = Some (get_hk_stock_by_code two_hk_world [0xFF17, 0xFF10, 0xFF10])
   \<and> fst (load_a_cache two_hk_world None) = Inr (rows two_hk_table)
   \<and> fst (search_a_stock two_hk_world None [0x6C47, 0x4E30])
       = Some \<lparr>symbol = [48, 48, 48, 48, 53], name = [0x6C47, 0x4E30, 0x63A7, 0x80A1],
               current_price = None\<rparr>
   \<and> isdigit [48, 48, 48, 48, 53]
   \<and> get_a_stock_by_code two_hk_world [48, 48, 48, 48, 53] = Inl (Upstream [])
   \<and> fst (search_a_stock two_hk_world None [48, 48, 48, 48, 53])
       = Some \<lparr>symbol = [48, 48, 48, 48, 53], name = [0x6C47, 0x4E30, 0x63A7, 0x80A1],
               current_price = None\<rparr>"
proof -
  have fields: "now two_hk_world = 1730678400"
    "stock_zh_a_spot_em two_hk_world = Returns two_hk_table"
    "stock_hk_spot_em two_hk_world = Returns two_hk_table"
    "stock_hk_security_profile_em two_hk_world [48, 48, 48, 48, 53] = Raises []"
    "stock_hk_daily two_hk_world [48, 48, 48, 48, 53] = Returns [64, 65]"
    "stock_individual_info_em two_hk_world [48, 48, 48, 48, 53] = Raises []"
    by (simp_all add: two_hk_world_def offline_world_def)
  have table: "code_col \<in> set (columns two_hk_table)" "name_col \<in> set (columns two_hk_table)"
    "usable_snapshot (Returns two_hk_table) = Some (rows two_hk_table)"
    by (simp_all add: two_hk_table_def usable_snapshot_def frame_empty_def)
  have universe: "fst (load_hk_cache two_hk_world None) = rows two_hk_table"
    "fst (load_a_cache two_hk_world None) = Inr (rows two_hk_table)"
    by (simp_all add: load_hk_cache_def load_a_cache_def refetch_a_def Let_def call_spot_def
        fields table)
  have codes: "provider_codes (rows two_hk_table)"
    by (simp add: provider_codes_def two_hk_table_def name_query_not_digits)
  have first: "find (rule_a [0x6C47, 0x4E30]) (rows two_hk_table)
      = Some \<lparr>code = [48, 48, 48, 48, 53], short_name = [0x6C47, 0x4E30, 0x63A7, 0x80A1]\<rparr>"
    "find (rule_a [48, 48, 48, 48, 53]) (rows two_hk_table)
      = Some \<lparr>code = [48, 48, 48, 48, 53], short_name = [0x6C47, 0x4E30, 0x63A7, 0x80A1]\<rparr>"
    "find (\<lambda>e. sublist [0x6C47, 0x4E30] (short_name e)) (rows two_hk_table)
      = Some \<lparr>code = [48, 48, 48, 48, 53], short_name = [0x6C47, 0x4E30, 0x63A7, 0x80A1]\<rparr>"
    by (simp_all add: two_hk_table_def rule_a_def sublist_code)
  have raised: "get_a_stock_by_code two_hk_world [48, 48, 48, 48, 53] = Inl (Upstream [])"
    by (simp add: get_a_stock_by_code_def fields)
  have direct: "get_hk_stock_by_code two_hk_world [48, 48, 48, 48, 53] =
      \<lparr>symbol = [48, 48, 48, 48, 53], name = [48, 48, 48, 48, 53], current_price = Some 65\<rparr>"
    by (simp add: get_hk_stock_by_code_def Let_def zfill_examples fields last_price_def)
  have cached: "a_result two_hk_world
        \<lparr>code = [48, 48, 48, 48, 53], short_name = [0x6C47, 0x4E30, 0x63A7, 0x80A1]\<rparr> =
      \<lparr>symbol = [48, 48, 48, 48, 53], name = [0x6C47, 0x4E30, 0x63A7, 0x80A1],
        current_price = None\<rparr>"
    by (simp add: a_result_def raised)
  show ?thesis
    using search_hk_stock_matches_by_name_only
        [where q = "[0x6C47, 0x4E30]" and w = two_hk_world and art = None
           and c = "[48, 48, 48, 48, 53]" and universe = "rows two_hk_table"]
      search_hk_stock_matches_by_name_only
        [where q = "[0xFF17, 0xFF10, 0xFF10]" and w = two_hk_world and art = None
           and c = "[48, 48, 48, 48, 53]" and universe = "rows two_hk_table"]
      search_hk_stock_matches_by_name_only
        [where q = "[48, 48, 48, 48, 53]" and w = two_hk_world and art = None
           and c = "[48, 48, 48, 48, 53]" and universe = "rows two_hk_table"]
      name_query_not_digits universe codes first raised direct cached
    by simp
qed


section \<open>The search route\<close>

lemma strip_blank:
  assumes "list_all is_space s"
  shows "strip s = []"
proof -
  have h: "dropWhile is_space s = []"
    using assms by (simp add: dropWhile_eq_Nil_conv list_all_iff)
  show ?thesis
    unfolding strip_def h by simp
qed

lemma search_stock_blank:
  assumes "req_query req = None \<or> (\<exists>q. req_query req = Some q \<and> list_all is_space q)"
  shows "search_stock w d req = ((Error_object (Literal msg_enter_query), 400), d, [])"
proof -
  have "strip (case req_query req of None \<Rightarrow> [] | Some q \<Rightarrow> q) = []"
    using assms strip_blank[of "[]"] by (auto simp: strip_blank)
  then show ?thesis
    by (simp add: search_stock_def Let_def)
qed

text \<open>
  C10: a search request whose query is absent, empty or made of white space only is
  answered with the error object holding the prompt to enter a name or code (its code
  points are spelled out below) and the status 400; none of the resolver, the dividend
  lookup and the rate lookup is called, and the disk is left as it is.
\<close>

theorem search_stock_rejects_blank_query:
  "req_query req = None \<or> (\<exists>q. req_query req = Some q \<and> list_all is_space q)
   \<longrightarrow> search_stock w d req =
       ((Error_object
           (Literal [0x8BF7, 0x8F93, 0x5165, 0x80A1, 0x7968, 0x540D, 0x79F0, 0x6216, 0x4EE3,
                     0x7801]), 400), d, [])"
  using search_stock_blank[where req = req and w = w and d = d]
  by (simp add: msg_enter_query_def)

theorem search_stock_rejects_blank_query_witness:
  "req_query blank_request = Some [32, 9, 0x3000] \<and> list_all is_space [32, 9, 0x3000]
   \<and> search_stock offline_world no_disk blank_request =
       ((Error_object
           (Literal [0x8BF7, 0x8F93, 0x5165, 0x80A1, 0x7968, 0x540D, 0x79F0, 0x6216, 0x4EE3,
                     0x7801]), 400), no_disk, [])"
proof -
  have a: "req_query blank_request = Some [32, 9, 0x3000]"
    and b: "list_all is_space [32, 9, 0x3000]"
    by (simp_all add: blank_request_def is_space_def)
  show ?thesis
    using search_stock_rejects_blank_query
        [where req = blank_request and w = offline_world and d = no_disk] a b
    by simp
qed

lemma search_stock_a_not_found:
  assumes q: "strip (case req_query req of None \<Rightarrow> [] | Some s \<Rightarrow> s) = q" "q \<noteq> []"
    and m: "req_market req = None \<or> req_market req = Some market_a"
    and nf: "fst (search_a_stock w (cache_a d) q) = None"
  shows "(\<exists>r. fst (search_stock w d req) = (Result_object r, 200)
           \<and> symbol r = q \<and> name r = [] \<and> current_price r = None
           \<and> market r = market_a \<and> dividend_currency r = CNY \<and> hkd_rate r = None
           \<and> dividend r = fst (get_a_dividend w q)
           \<and> dividend_dates r = fst (snd (get_a_dividend w q))
           \<and> errors r =
               Not_found_a q #
               (case fst (get_a_dividend w q) of
                  None \<Rightarrow> [Dividend_failed (snd (snd (get_a_dividend w q)))]
                | Some dv \<Rightarrow> []))
       \<and> snd (snd (search_stock w d req)) = [Search_a q, Dividend_a q]"
proof -
  have mkt: "(case req_market req of None \<Rightarrow> market_a | Some m \<Rightarrow> m) = market_a"
    using m by auto
  obtain art' where found: "search_a_stock w (cache_a d) q = (None, art')"
    using nf by (cases "search_a_stock w (cache_a d) q") auto
  obtain dv dates err where div: "get_a_dividend w q = (dv, dates, err)"
    by (cases "get_a_dividend w q") auto
  show ?thesis
    using q(2)
    by (cases dv)
       (simp_all add: search_stock_def Let_def q(1) mkt found div shell_def merge_dividend_def)
qed

lemma search_stock_hk_not_found:
  assumes q: "strip (case req_query req of None \<Rightarrow> [] | Some s \<Rightarrow> s) = q" "q \<noteq> []"
    and m: "req_market req = Some mk" "mk \<noteq> market_a"
    and nf: "fst (search_hk_stock w (cache_hk d) q) = None"
  shows "fst (search_stock w d req) = (Error_object_with_errors (Not_found_hk q) [], 200)
       \<and> snd (snd (search_stock w d req)) = [Search_hk q]"
proof -
  obtain art' where found: "search_hk_stock w (cache_hk d) q = (None, art')"
    using nf by (cases "search_hk_stock w (cache_hk d) q") auto
  show ?thesis
    using q(2) m
    by (simp add: search_stock_def Let_def q(1) found)
qed

text \<open>
  C5: the route treats not-found differently on the two markets. On market A (the
  market of the request is \<open>A\<close> or absent), when the resolver finds nothing for the
  trimmed query, the route still calls the dividend lookup with the trimmed query as
  symbol and answers with status 200 and a result object: its symbol is the query, its
  name is empty and its price absent, its amount and dates are those of the dividend
  lookup, and its error list starts with the not-found message, followed by the
  dividend-failure message when the lookup gave no amount. On any other market, when the
  resolver finds nothing, the route answers with the error object alone (an \<open>error\<close>
  message and an empty \<open>errors\<close> list, no field of a result) after the one call of the
  resolver: neither the dividend lookup nor the rate lookup is called.
\<close>

theorem search_stock_not_found_asymmetry:
  "(strip (case req_query req of None \<Rightarrow> [] | Some s \<Rightarrow> s) = q \<and> q \<noteq> []
      \<and> (req_market req = None \<or> req_market req = Some market_a)
      \<and> fst (search_a_stock w (cache_a d) q) = None
    \<longrightarrow> (\<exists>r. fst (search_stock w d req) = (Result_object r, 200)
             \<and> symbol r = q \<and> name r = [] \<and> current_price r = None
             \<and> market r = market_a \<and> dividend_currency r = CNY \<and> hkd_rate r = None
             \<and> dividend r = fst (get_a_dividend w q)
             \<and> dividend_dates r = fst (snd (get_a_dividend w q))
             \<and> errors r =
                 Not_found_a q #
                 (case fst (get_a_dividend w q) of
                    None \<Rightarrow> [Dividend_failed (snd (snd (get_a_dividend w q)))]
                  | Some dv \<Rightarrow> []))
        \<and> snd (snd (search_stock w d req)) = [Search_a q, Dividend_a q])
   \<and> (strip (case req_query req of None \<Rightarrow> [] | Some s \<Rightarrow> s) = q \<and> q \<noteq> []
      \<and> req_market req = Some mk \<and> mk \<noteq> market_a
      \<and> fst (search_hk_stock w (cache_hk d) q) = None
    \<longrightarrow> fst (search_stock w d req) = (Error_object_with_errors (Not_found_hk q) [], 200)
        \<and> snd (snd (search_stock w d req)) = [Search_hk q])"
  using search_stock_a_not_found[where req = req and q = q and w = w and d = d]
    search_stock_hk_not_found[where req = req and q = q and w = w and d = d and mk = mk]
  by blast

theorem search_stock_not_found_asymmetry_witness:
  "strip (case req_query untracked_a_request of None \<Rightarrow> [] | Some s \<Rightarrow> s) = [54, 48, 48]
   \<and> req_market untracked_a_request = None
   \<and> fst (search_a_stock (world_of_history 1730678400 (window_example 1730678400))
            (cache_a no_disk) [54, 48, 48]) = None
   \<and> (\<exists>r. fst (search_stock (world_of_history 1730678400 (window_example 1730678400)) no_disk
                 untracked_a_request) = (Result_object r, 200)
          \<and> symbol r = [54, 48, 48] \<and> dividend r = Some (1 / 2)
          \<and> errors r = [Not_found_a [54, 48, 48]])
   \<and> snd (snd (search_stock (world_of_history 1730678400 (window_example 1730678400)) no_disk
                  untracked_a_request)) = [Search_a [54, 48, 48], Dividend_a [54, 48, 48]]
   \<and> strip (case req_query unknown_hk_request of None \<Rightarrow> [] | Some s \<Rightarrow> s) = [65, 66, 67]
   \<and> req_market unknown_hk_request = Some [72, 75]
   \<and> fst (search_hk_stock offline_world (cache_hk no_disk) [65, 66, 67]) = None
   \<and> fst (search_stock offline_world no_disk unknown_hk_request) =
       (Error_object_with_errors (Not_found_hk [65, 66, 67]) [], 200)
   \<and> snd (snd (search_stock offline_world no_disk unknown_hk_request)) = [Search_hk [65, 66, 67]]"
proof -
  let ?w = "world_of_history 1730678400 (window_example 1730678400)"
  have qa: "strip (case req_query untracked_a_request of None \<Rightarrow> [] | Some s \<Rightarrow> s)
      = [54, 48, 48]"
    and ma: "req_market untracked_a_request = None"
    by (simp_all add: untracked_a_request_def strip_def is_space_def)
  have qh: "strip (case req_query unknown_hk_request of None \<Rightarrow> [] | Some s \<Rightarrow> s)
      = [65, 66, 67]"
    and mh: "req_market unknown_hk_request = Some [72, 75]" "[72, 75] \<noteq> market_a"
    by (simp_all add: unknown_hk_request_def strip_def is_space_def market_a_def)
  have fa: "stock_individual_info_em ?w [54, 48, 48] = Raises []"
    "stock_zh_a_spot_em ?w = Raises []"
    by (simp_all add: world_of_history_def offline_world_def)
  have na: "fst (search_a_stock ?w (cache_a no_disk) [54, 48, 48]) = None"
    by (simp add: search_a_stock_def name_search_a_def get_a_stock_by_code_def load_a_cache_def
        refetch_a_def no_disk_def fa)
  have fh: "stock_hk_spot_em offline_world = Raises []"
    "stock_hk_main_board_spot_em offline_world = Raises []"
    by (simp_all add: offline_world_def)
  have dh: "\<not> isdigit [65, 66, 67]"
    by (simp add: isdigit_facts)
  have nh: "fst (search_hk_stock offline_world (cache_hk no_disk) [65, 66, 67]) = None"
    by (simp add: search_hk_stock_def dh load_hk_cache_def Let_def call_spot_def
        usable_snapshot_def no_disk_def fh)
  have amount: "fst (get_a_dividend ?w [54, 48, 48]) = Some (1 / 2)"
    by (rule window_example_amount)
  show ?thesis
    using search_stock_not_found_asymmetry
        [where req = untracked_a_request and q = "[54, 48, 48]" and w = ?w and d = no_disk
           and mk = "[72, 75]"]
      search_stock_not_found_asymmetry
        [where req = unknown_hk_request and q = "[65, 66, 67]" and w = offline_world
           and d = no_disk and mk = "[72, 75]"]
      qa ma qh mh na nh amount
    by auto
qed

end
